theory Spec2Isabelle
  imports Main "HOL-Library.Word"
begin

section \<open>Zen Display firmware: lifecycle controller (e-ink-display/src/main.cpp)\<close>

text \<open>
  A shallow embedding of the firmware's controller. The global variables of main.cpp are
  the fields of one record; every function that mutates them takes the record and returns
  it updated. What the hardware and the libraries answer (the millisecond counter, the wall
  clock, the Wi-Fi link, HTTP responses, decoded JSON, the two input pins) is an explicit
  input, the record \<open>env\<close>. What the firmware does to the outside world (HTTP requests,
  display pages, BLE notifications, restart) is appended to the field \<open>trace\<close>, which has no
  counterpart in the C++ and is only written, never read, by the model. Serial logging and
  \<open>delay\<close> are left out.
\<close>

subsection \<open>Configuration constants (main.cpp 32-53)\<close>

definition BACKEND_BASE_URL :: string where
  "BACKEND_BASE_URL = ''https://raspberrypi.tailf0b36d.ts.net''"

definition REGISTER_ENDPOINT :: string where
  "REGISTER_ENDPOINT = ''/devices/register''"

definition STATE_ENDPOINT :: string where
  "STATE_ENDPOINT = ''/devices/state''"

definition HEARTBEAT_ENDPOINT :: string where
  "HEARTBEAT_ENDPOINT = ''/devices/heartbeat''"

definition STATE_REFRESH_INTERVAL_MS :: "32 word" where
  "STATE_REFRESH_INTERVAL_MS = 60000"

definition HEARTBEAT_INTERVAL_MS :: "32 word" where
  "HEARTBEAT_INTERVAL_MS = 30000"

definition PROVISIONING_MESSAGE_REFRESH_MS :: "32 word" where
  "PROVISIONING_MESSAGE_REFRESH_MS = 60000"

definition TIME_CHECK_INTERVAL_MS :: "32 word" where
  "TIME_CHECK_INTERVAL_MS = 1000"

definition debounceDelay :: "32 word" where
  "debounceDelay = 50"

definition resetDebounceDelay :: "32 word" where
  "resetDebounceDelay = 50"

definition PREF_WIFI_SSID :: string where
  "PREF_WIFI_SSID = ''wifi_ssid''"

definition PREF_WIFI_PASS :: string where
  "PREF_WIFI_PASS = ''wifi_pass''"

definition PREF_DEVICE_ID :: string where
  "PREF_DEVICE_ID = ''device_id''"

definition PREF_DEVICE_SECRET :: string where
  "PREF_DEVICE_SECRET = ''device_secret''"

definition PREF_PAIRING_TOKEN :: string where
  "PREF_PAIRING_TOKEN = ''pairing_token''"

definition PREF_BLE_NAME :: string where
  "PREF_BLE_NAME = ''ble_name''"

definition PREF_FIRMWARE :: string where
  "PREF_FIRMWARE = ''fw''"

definition FIRMWARE_VERSION :: string where
  "FIRMWARE_VERSION = ''0.2.0''"

text \<open>
  Modelled from the spec: the three status codes of HTTPClient.h, which is not part of the
  repository. The spec's wire contract names 201 (created), 200 (ok) and 409 (unclaimed).
\<close>

definition HTTP_CODE_OK :: int where
  "HTTP_CODE_OK = 200"

definition HTTP_CODE_CREATED :: int where
  "HTTP_CODE_CREATED = 201"

definition HTTP_CODE_CONFLICT :: int where
  "HTTP_CODE_CONFLICT = 409"

subsection \<open>Strings\<close>

text \<open>
  An Arduino \<open>String\<close>, a \<open>std::string\<close> and the content of a \<open>char\<close> buffer are byte
  lists. A \<open>String\<close> built from a \<open>const char*\<close> stops at the first NUL byte: \<open>c_str\<close>.
\<close>

definition c_str :: "string \<Rightarrow> string" where
  "c_str bytes = takeWhile (\<lambda>c. c \<noteq> CHR 0x00) bytes"

text \<open>\<open>copyToBuffer\<close> (195-198): the new content of a buffer of the given capacity.\<close>

definition copyToBuffer :: "string \<Rightarrow> nat \<Rightarrow> string \<Rightarrow> string" where
  "copyToBuffer target capacity v =
     (if capacity = 0 then target else c_str (take (capacity - 1) v))"

definition digit_char :: "nat \<Rightarrow> char" where
  "digit_char d = ''0123456789ABCDEF'' ! (d mod 16)"

text \<open>\<open>String(int)\<close> and \<open>%d\<close> for a value that is not negative.\<close>

fun dec_string :: "nat \<Rightarrow> string" where
  "dec_string n = (if n < 10 then [digit_char n] else dec_string (n div 10) @ [digit_char (n mod 10)])"

declare dec_string.simps [simp del]

text \<open>\<open>%02d\<close>.\<close>

definition pad2 :: "nat \<Rightarrow> string" where
  "pad2 n = (if n < 10 then CHR ''0'' # dec_string n else dec_string n)"

text \<open>\<open>%04X\<close> of a value below 0x10000.\<close>

definition hex4 :: "nat \<Rightarrow> string" where
  "hex4 n = [digit_char (n div 4096), digit_char (n div 256), digit_char (n div 16), digit_char n]"

subsection \<open>The environment\<close>

text \<open>
  The wall clock as \<open>time(nullptr)\<close> and \<open>localtime_r\<close> give it: seconds since the epoch,
  hour and minute of the local time, and the local date as \<open>strftime\<close> prints it with
  \<open>%Y-%m-%d\<close>. One reading serves a whole tick.
\<close>

record wallclock =
  epoch :: int
  tm_hour :: nat
  tm_min :: nat
  today :: string

text \<open>
  A decoded JSON string member is \<open>None\<close> when the member is absent or not a string;
  \<open>item["k"] | ""\<close> then yields the empty string, and the conversion to \<open>String\<close> goes
  through \<open>const char*\<close>.
\<close>

definition json_or_empty :: "string option \<Rightarrow> string" where
  "json_or_empty v = (case v of None \<Rightarrow> [] | Some x \<Rightarrow> c_str x)"

record cal_item =
  item_start :: "string option"
  item_summary :: "string option"
  item_location :: "string option"

record mail_item =
  item_from :: "string option"
  item_subject :: "string option"
  item_snippet :: "string option"

text \<open>The document of a state response: the arrays \<open>calendar.items\<close> and \<open>email.items\<close>
  (empty when absent).\<close>

record state_doc =
  cal_items :: "cal_item list"
  email_items :: "mail_item list"

text \<open>The four members of a registration response as \<open>as<String>()\<close> returns them.\<close>

record reg_doc =
  r_deviceId :: string
  r_deviceSecret :: string
  r_pairingToken :: string
  r_bluetoothName :: string

text \<open>The places of \<open>loop\<close> and \<open>handleProvisioningUi\<close> that read \<open>millis()\<close>.\<close>

datatype site =
  LoopStart | ProvUi | HeartbeatCheck | HeartbeatSet | FetchCheck | FetchSet
  | ModeEdge | ModeCheck | ResetEdge | ResetCheck

record env =
  ms :: "site \<Rightarrow> 32 word"
  clock :: wallclock
  wifi_status_connected :: bool
  wifi_attempt_credentials :: bool
  wifi_attempt_stored :: bool
  reg_begin_ok :: bool
  reg_code :: int
  reg_response :: "reg_doc option"
  hb_begin_ok :: bool
  st_begin_ok :: bool
  st_code :: int
  st_doc :: "state_doc option"
  mode_pin :: bool
  reset_pin :: bool
  mac_address :: string
  efuse_mac :: "64 word"
  wifi_rssi :: int

subsection \<open>The device state\<close>

datatype UiMode = Provisioning | Calendar | Email

datatype jval = JStr string | JInt int

datatype event =
  HttpPost string "(string \<times> string) list" "(string \<times> jval) list"
  | HttpGet string "(string \<times> string) list"
  | PageStart
  | DrawCalendar
  | DrawEmail
  | DrawProvisioning string string string string
  | StatusNotify string
  | PairingNotify string
  | BleInit string
  | BleAdvertise
  | BleRename string
  | BleDeinit
  | WifiBegin string string
  | ConfigTime
  | Restart

record dev_state =
  gCalSlotPrimary :: string
  gCalSlotSecondary :: string
  gCalSlotThird :: string
  gCalLocation :: string
  gCalSelected :: string
  gMailSlotPrimary :: string
  gMailSelected :: string
  gMailSender :: string
  gMailSummary :: string
  mail_lines_buf :: "string list"
  currentTimeBuf :: string
  lastStateSignature :: string
  minuteRefreshPending :: bool
  lastModeState :: bool
  stableState :: bool
  lastDebounceTime :: "32 word"
  lastButtonPressed :: bool
  lastResetState :: bool
  resetStableState :: bool
  lastResetDebounceTime :: "32 word"
  lastResetPressed :: bool
  prefs :: "string \<rightharpoonup> string"
  wifiSsid :: string
  wifiPassword :: string
  deviceId :: string
  deviceSecret :: string
  pairingToken :: string
  bleName :: string
  wifiConnected :: bool
  deviceRegistered :: bool
  stateReady :: bool
  lastStateFetch :: "32 word"
  lastHeartbeat :: "32 word"
  lastProvisioningRedraw :: "32 word"
  lastProvHeadline :: string
  lastProvLine1 :: string
  lastProvLine2 :: string
  lastProvLine3 :: string
  provisioningDirty :: bool
  credentialsUpdated :: bool
  pendingSsid :: string
  pendingPassword :: string
  pairingInfoChar :: bool
  statusChar :: bool
  bleInitialized :: bool
  pairingBuffer :: string
  statusBuffer :: string
  currentUi :: UiMode
  lastTimeUpdate :: "32 word"
  lastTimeString :: string
  trace :: "event list"

text \<open>
  The globals as their initialisers leave them when the program image is loaded (58-150,
  857-858): pin levels are booleans (\<open>HIGH\<close> is \<open>True\<close>), a null characteristic pointer is
  \<open>False\<close>. The key-value store survives a restart and is handed in; so is the trace.
\<close>

definition power_on :: "(string \<rightharpoonup> string) \<Rightarrow> event list \<Rightarrow> dev_state" where
  "power_on store tr = \<lparr>
     gCalSlotPrimary = ''Pair Zen Display'',
     gCalSlotSecondary = ''Add calendar'',
     gCalSlotThird = [],
     gCalLocation = [],
     gCalSelected = ''Open Zen Phone app'',
     gMailSlotPrimary = ''Connect Gmail'',
     gMailSelected = ''No email'',
     gMailSender = [],
     gMailSummary = ''Open Settings -> Connect Display'',
     mail_lines_buf = [[], [], [], [], [], []],
     currentTimeBuf = ''--:--'',
     lastStateSignature = [],
     minuteRefreshPending = False,
     lastModeState = False,
     stableState = False,
     lastDebounceTime = 0,
     lastButtonPressed = False,
     lastResetState = False,
     resetStableState = False,
     lastResetDebounceTime = 0,
     lastResetPressed = False,
     prefs = store,
     wifiSsid = [],
     wifiPassword = [],
     deviceId = [],
     deviceSecret = [],
     pairingToken = [],
     bleName = [],
     wifiConnected = False,
     deviceRegistered = False,
     stateReady = False,
     lastStateFetch = 0,
     lastHeartbeat = 0,
     lastProvisioningRedraw = 0,
     lastProvHeadline = [],
     lastProvLine1 = [],
     lastProvLine2 = [],
     lastProvLine3 = [],
     provisioningDirty = True,
     credentialsUpdated = False,
     pendingSsid = [],
     pendingPassword = [],
     pairingInfoChar = False,
     statusChar = False,
     bleInitialized = False,
     pairingBuffer = [],
     statusBuffer = [],
     currentUi = Provisioning,
     lastTimeUpdate = 0,
     lastTimeString = ''--:--'',
     trace = tr \<rparr>"

definition emit :: "event \<Rightarrow> dev_state \<Rightarrow> dev_state" where
  "emit ev s = s\<lparr>trace := trace s @ [ev]\<rparr>"

text \<open>\<open>Preferences::getString(key, default)\<close>.\<close>

definition getString :: "(string \<rightharpoonup> string) \<Rightarrow> string \<Rightarrow> string \<Rightarrow> string" where
  "getString store k dflt = (case store k of None \<Rightarrow> dflt | Some v \<Rightarrow> v)"

subsection \<open>The provisioning channel\<close>

text \<open>
  \<open>CredentialCallbacks::onWrite\<close> (171-190). \<open>raw\<close> is the written value, a byte string
  with its own length. \<open>find\<close> gives the position of the first newline; both halves go
  through \<open>c_str()\<close> into a \<open>String\<close>.
\<close>

definition onWrite :: "string \<Rightarrow> dev_state \<Rightarrow> dev_state" where
  "onWrite raw s =
     (if raw = [] then s
      else if CHR 0x0A \<notin> set raw then s
      else
        let newlinePos = length (takeWhile (\<lambda>c. c \<noteq> CHR 0x0A) raw) in
        s\<lparr>pendingSsid := c_str (take newlinePos raw),
          pendingPassword := c_str (drop (newlinePos + 1) raw),
          credentialsUpdated := True\<rparr>)"

text \<open>\<open>updatePairingCharacteristic\<close> (403-412): \<open>snprintf\<close> into a buffer of 256 bytes.\<close>

definition pairing_json :: "string \<Rightarrow> string \<Rightarrow> string" where
  "pairing_json did tok =
     [CHR ''{'', CHR 0x22] @ ''deviceId'' @ [CHR 0x22, CHR '':'', CHR 0x22] @ c_str did
     @ [CHR 0x22, CHR '','', CHR 0x22] @ ''token'' @ [CHR 0x22, CHR '':'', CHR 0x22] @ c_str tok
     @ [CHR 0x22, CHR ''}'']"

definition updatePairingCharacteristic :: "dev_state \<Rightarrow> dev_state" where
  "updatePairingCharacteristic s =
     (if \<not> pairingInfoChar s then s
      else
        let buf = take 255 (pairing_json (deviceId s) (pairingToken s)) in
        emit (PairingNotify buf) (s\<lparr>pairingBuffer := buf\<rparr>))"

text \<open>\<open>updateStatusCharacteristic\<close> (414-426): \<open>strncpy\<close> into a buffer of 64 bytes.\<close>

definition updateStatusCharacteristic :: "string \<Rightarrow> dev_state \<Rightarrow> dev_state" where
  "updateStatusCharacteristic status s =
     (if \<not> statusChar s then s
      else
        let buf = take 63 (c_str status) in
        emit (StatusNotify buf) (s\<lparr>statusBuffer := buf\<rparr>))"

text \<open>\<open>ensureBleAdvertising\<close> (392-397): whether the radio already advertises is not
  tracked; the request to advertise is.\<close>

definition ensureBleAdvertising :: "dev_state \<Rightarrow> dev_state" where
  "ensureBleAdvertising s = emit BleAdvertise s"

text \<open>\<open>startBleProvisioning\<close> (428-467).\<close>

definition startBleProvisioning :: "dev_state \<Rightarrow> dev_state" where
  "startBleProvisioning s =
     (if bleInitialized s then ensureBleAdvertising s
      else
        let s1 = emit (BleInit (c_str (bleName s))) s;
            s2 = s1\<lparr>pairingInfoChar := True, statusChar := True\<rparr>;
            s3 = emit BleAdvertise s2;
            s4 = updatePairingCharacteristic s3;
            s5 = updateStatusCharacteristic ''idle'' s4
        in s5\<lparr>bleInitialized := True\<rparr>)"

text \<open>\<open>defaultBleName\<close> (233-239).\<close>

definition defaultBleName :: "env \<Rightarrow> string" where
  "defaultBleName e = ''ZenDisplay-'' @ hex4 (unat (efuse_mac e) mod 65536)"

subsection \<open>Time\<close>

text \<open>\<open>updateTime\<close> (241-250) and \<open>getCurrentTimeString\<close> (253-263).\<close>

definition updateTime :: "wallclock \<Rightarrow> dev_state \<Rightarrow> dev_state" where
  "updateTime clk s =
     (if epoch clk < 10000 then s\<lparr>currentTimeBuf := ''--:--''\<rparr>
      else s\<lparr>currentTimeBuf := take 15 (pad2 (tm_hour clk) @ '':'' @ pad2 (tm_min clk))\<rparr>)"

definition getCurrentTimeString :: "wallclock \<Rightarrow> string" where
  "getCurrentTimeString clk =
     (if epoch clk < 10000 then ''--:--''
      else take 5 (pad2 (tm_hour clk) @ '':'' @ pad2 (tm_min clk)))"

text \<open>\<open>extractTimeFromISO\<close> (266-278), into a buffer of \<open>bufSize\<close> bytes; the argument
  is never null.\<close>

definition extractTimeFromISO :: "string \<Rightarrow> nat \<Rightarrow> string" where
  "extractTimeFromISO isoTime bufSize =
     (if bufSize < 6 then take (bufSize - 1) ''--:--''
      else if length isoTime > 16 then take (bufSize - 1) (take 5 (drop 11 isoTime))
      else take (bufSize - 1) ''--:--'')"

text \<open>\<open>isEventToday\<close> (281-299).\<close>

definition isEventToday :: "wallclock \<Rightarrow> string \<Rightarrow> bool" where
  "isEventToday clk isoTime =
     (if length isoTime < 10 then False
      else if epoch clk < 10000 then False
      else take 10 isoTime = today clk)"

subsection \<open>Drawing and the view state machine\<close>

text \<open>
  \<open>setFullWindow\<close> with \<open>firstPage\<close> is the event \<open>PageStart\<close>; the paged loop around
  a draw routine is one draw event. \<open>refreshDisplayForMode\<close> (301-323).
\<close>

definition refreshDisplayForMode :: "UiMode \<Rightarrow> dev_state \<Rightarrow> dev_state" where
  "refreshDisplayForMode targetMode s =
     (if currentUi s = targetMode then s
      else
        let target = (if targetMode = Calendar \<and> gCalSlotPrimary s = [] then Email else targetMode);
            s1 = emit PageStart s;
            s2 = (if target = Calendar then emit DrawCalendar s1
                  else if target = Email then emit DrawEmail s1
                  else s1)
        in s2\<lparr>currentUi := target\<rparr>)"

text \<open>\<open>refreshCurrentDisplay\<close> (325-337).\<close>

definition refreshCurrentDisplay :: "dev_state \<Rightarrow> dev_state" where
  "refreshCurrentDisplay s =
     (let s1 = emit PageStart s in
      if currentUi s1 = Calendar then emit DrawCalendar s1
      else if currentUi s1 = Email then emit DrawEmail s1
      else s1)"

text \<open>\<open>drawProvisioningScreen\<close> (339-358).\<close>

definition drawProvisioningScreen :: "string \<Rightarrow> string \<Rightarrow> string \<Rightarrow> string \<Rightarrow> dev_state \<Rightarrow> dev_state" where
  "drawProvisioningScreen headline line1 line2 line3 s =
     (emit (DrawProvisioning headline line1 line2 line3) (emit PageStart s))\<lparr>currentUi := Provisioning\<rparr>"

text \<open>\<open>handleProvisioningUi\<close> (360-390); \<open>now\<close> is its reading of \<open>millis()\<close>.\<close>

definition handleProvisioningUi :: "32 word \<Rightarrow> dev_state \<Rightarrow> dev_state" where
  "handleProvisioningUi now s =
     (let headline = (if wifiConnected s then ''Waiting for pairing'' else ''Setup this display'');
          line1 = ''Open the Zen AI Phone app'';
          line2 = ''Tap 'Connect Display' and follow the instructions'';
          line3 = ''Select BLE '' @ bleName s;
          changed = (headline \<noteq> lastProvHeadline s \<or> line1 \<noteq> lastProvLine1 s
                     \<or> line2 \<noteq> lastProvLine2 s \<or> line3 \<noteq> lastProvLine3 s);
          s1 = (if changed
                then s\<lparr>lastProvHeadline := headline, lastProvLine1 := line1,
                       lastProvLine2 := line2, lastProvLine3 := line3,
                       provisioningDirty := True\<rparr>
                else s)
      in if \<not> provisioningDirty s1
            \<and> now - lastProvisioningRedraw s1 < PROVISIONING_MESSAGE_REFRESH_MS
         then s1
         else
           (drawProvisioningScreen (lastProvHeadline s1) (lastProvLine1 s1)
              (lastProvLine2 s1) (lastProvLine3 s1) s1)
             \<lparr>lastProvisioningRedraw := now, provisioningDirty := False\<rparr>)"

subsection \<open>Connectivity\<close>

text \<open>
  \<open>attemptWifiConnection\<close> (469-507). The polling loop (480-483) assigns no variable of
  the program; after it the link status is read afresh, and that reading is the argument
  \<open>link\<close>.
\<close>

definition attemptWifiConnection :: "bool \<Rightarrow> wallclock \<Rightarrow> string \<Rightarrow> string \<Rightarrow> dev_state \<Rightarrow> dev_state" where
  "attemptWifiConnection link clk ssid password s =
     (if ssid = [] then s\<lparr>wifiConnected := False\<rparr>
      else
        let s1 = emit (WifiBegin (c_str ssid) (c_str password)) s;
            s2 = s1\<lparr>wifiConnected := link\<rparr>
        in if wifiConnected s2
           then
             let s3 = s2\<lparr>wifiSsid := ssid, wifiPassword := password\<rparr>;
                 s4 = s3\<lparr>prefs := (prefs s3)(PREF_WIFI_SSID \<mapsto> wifiSsid s3,
                                              PREF_WIFI_PASS \<mapsto> wifiPassword s3)\<rparr>;
                 s5 = emit ConfigTime s4;
                 s6 = updateTime clk s5
             in updateStatusCharacteristic ''wifi_connected'' s6
           else updateStatusCharacteristic ''wifi_failed'' s2)"

text \<open>\<open>ensureWifiConnection\<close> (509-518).\<close>

definition ensureWifiConnection :: "env \<Rightarrow> dev_state \<Rightarrow> bool \<times> dev_state" where
  "ensureWifiConnection e s =
     (if wifiConnected s \<and> wifi_status_connected e then (True, s)
      else
        let s1 = s\<lparr>wifiConnected := False\<rparr>;
            s2 = (if wifiSsid s1 \<noteq> []
                  then attemptWifiConnection (wifi_attempt_stored e) (clock e)
                         (wifiSsid s1) (wifiPassword s1) s1
                  else s1)
        in (wifiConnected s2, s2))"

subsection \<open>Registration and heartbeat\<close>

text \<open>
  \<open>registerDeviceWithBackend\<close> (520-582). The POST is the network request; \<open>response\<close>
  is the decoded body, \<open>None\<close> when \<open>deserializeJson\<close> reports an error.
\<close>

definition registerDeviceWithBackend :: "env \<Rightarrow> dev_state \<Rightarrow> bool \<times> dev_state" where
  "registerDeviceWithBackend e s =
     (if \<not> wifiConnected s then (False, s)
      else if deviceId s \<noteq> [] \<and> deviceSecret s \<noteq> []
      then (True, updateStatusCharacteristic ''registered'' (updatePairingCharacteristic s))
      else if \<not> reg_begin_ok e then (False, s)
      else
        let s1 = emit (HttpPost (BACKEND_BASE_URL @ REGISTER_ENDPOINT)
                         [(''Content-Type'', ''application/json'')]
                         [(''hardwareId'', JStr (mac_address e)),
                          (''firmwareVersion'', JStr FIRMWARE_VERSION)]) s
        in if reg_code e \<noteq> HTTP_CODE_CREATED then (False, s1)
           else
             (case reg_response e of
                None \<Rightarrow> (False, s1)
              | Some response \<Rightarrow>
                  let s2 = s1\<lparr>deviceId := r_deviceId response,
                              deviceSecret := r_deviceSecret response,
                              pairingToken := r_pairingToken response\<rparr>;
                      newBleName = r_bluetoothName response;
                      s3 = (if newBleName \<noteq> []
                            then
                              let s2a = s2\<lparr>bleName := newBleName\<rparr>;
                                  s2b = s2a\<lparr>prefs := (prefs s2a)(PREF_BLE_NAME \<mapsto> bleName s2a)\<rparr>
                              in if bleInitialized s2b
                                 then ensureBleAdvertising (emit (BleRename (c_str (bleName s2b))) s2b)
                                 else s2b
                            else s2);
                      s4 = s3\<lparr>prefs := (prefs s3)(PREF_DEVICE_ID \<mapsto> deviceId s3,
                                                   PREF_DEVICE_SECRET \<mapsto> deviceSecret s3,
                                                   PREF_PAIRING_TOKEN \<mapsto> pairingToken s3,
                                                   PREF_FIRMWARE \<mapsto> FIRMWARE_VERSION)\<rparr>;
                      s5 = s4\<lparr>deviceRegistered := True, stateReady := False\<rparr>
                  in (True, updateStatusCharacteristic ''registered'' (updatePairingCharacteristic s5))))"

text \<open>\<open>sendHeartbeat\<close> (754-774).\<close>

definition sendHeartbeat :: "env \<Rightarrow> dev_state \<Rightarrow> dev_state" where
  "sendHeartbeat e s =
     (if \<not> wifiConnected s \<or> deviceId s = [] then s
      else if \<not> hb_begin_ok e then s
      else
        emit (HttpPost (BACKEND_BASE_URL @ HEARTBEAT_ENDPOINT)
                [(''Content-Type'', ''application/json''),
                 (''X-Device-Id'', deviceId s), (''X-Device-Secret'', deviceSecret s)]
                ((if wifiConnected s
                  then [(''wifiSsid'', JStr (wifiSsid s)), (''wifiRssi'', JInt (wifi_rssi e))]
                  else [])
                 @ [(''firmwareVersion'', JStr FIRMWARE_VERSION)])) s)"

subsection \<open>Synchronising the snapshot\<close>

text \<open>
  The first loop of \<open>fetchDeviceState\<close> (639-656): \<open>count\<close> is the number of entries
  kept so far; the result lists \<open>formatted[i]\<close> with \<open>locs[i]\<close> for the entries kept from
  here on.
\<close>

fun collect_today :: "wallclock \<Rightarrow> nat \<Rightarrow> cal_item list \<Rightarrow> (string \<times> string) list" where
  "collect_today clk count [] = []"
| "collect_today clk count (item # rest) =
     (if count < 3
      then
        let start = json_or_empty (item_start item) in
        if start = [] then collect_today clk count rest
        else if isEventToday clk start
        then
          let summary = json_or_empty (item_summary item);
              timeBuf = extractTimeFromISO start 6
          in (timeBuf @ '' '' @ summary, json_or_empty (item_location item))
               # collect_today clk (Suc count) rest
        else collect_today clk count rest
      else [])"

text \<open>The calendar buffers (657-672).\<close>

definition fill_calendar :: "(string \<times> string) list \<Rightarrow> dev_state \<Rightarrow> dev_state" where
  "fill_calendar kept s =
     (let count = length kept in
      if count = 0
      then s\<lparr>gCalSlotPrimary := copyToBuffer (gCalSlotPrimary s) 64 [],
             gCalSelected := copyToBuffer (gCalSelected s) 96 [],
             gCalLocation := copyToBuffer (gCalLocation s) 48 [],
             gCalSlotSecondary := copyToBuffer (gCalSlotSecondary s) 64 [],
             gCalSlotThird := copyToBuffer (gCalSlotThird s) 64 []\<rparr>
      else s\<lparr>gCalSlotPrimary := copyToBuffer (gCalSlotPrimary s) 64 (fst (kept ! 0)),
             gCalSelected := copyToBuffer (gCalSelected s) 96 (fst (kept ! 0)),
             gCalLocation := copyToBuffer (gCalLocation s) 48 (snd (kept ! 0)),
             gCalSlotSecondary :=
               copyToBuffer (gCalSlotSecondary s) 64 (if count > 1 then fst (kept ! 1) else []),
             gCalSlotThird :=
               copyToBuffer (gCalSlotThird s) 64 (if count > 2 then fst (kept ! 2) else [])\<rparr>)"

text \<open>\<open>updateMailSummaryLines\<close> (200-231) on a text that is not null: the scan of one
  segment, the lines, and the six line buffers.\<close>

fun last_space :: "nat \<Rightarrow> string \<Rightarrow> nat option \<Rightarrow> nat option" where
  "last_space i [] found = found"
| "last_space i (c # cs) found = last_space (Suc i) cs (if c = CHR '' '' then Some i else found)"

definition wrap_segment :: "string \<Rightarrow> string \<times> string" where
  "wrap_segment cursor =
     (let maxLen = 18;
          len = min maxLen (length cursor);
          lastSpace = last_space 0 (take maxLen cursor) None
      in case lastSpace of
           Some p \<Rightarrow>
             if drop len cursor \<noteq> [] \<and> p > 0
             then (take p cursor, drop (p + 1) cursor)
             else (take len cursor, drop len cursor)
         | None \<Rightarrow> (take len cursor, drop len cursor))"

fun wrap_lines :: "nat \<Rightarrow> string \<Rightarrow> string list" where
  "wrap_lines 0 cursor = []"
| "wrap_lines (Suc n) cursor =
     (if cursor = [] then []
      else case wrap_segment cursor of (line, rest) \<Rightarrow> line # wrap_lines n rest)"

definition updateMailSummaryLines :: "string \<Rightarrow> dev_state \<Rightarrow> dev_state" where
  "updateMailSummaryLines txt s =
     (let lines = wrap_lines 6 txt in
      s\<lparr>mail_lines_buf := lines @ replicate (6 - length lines) []\<rparr>)"

text \<open>The email buffers (674-714): \<open>senders\<close>, \<open>mailSubject\<close> and \<open>mailSnippet\<close> as the
  loop over at most three items leaves them.\<close>

definition mail_senders :: "mail_item list \<Rightarrow> string list" where
  "mail_senders items = map (\<lambda>it. json_or_empty (item_from it)) (take 3 items)"

definition sender_at :: "string list \<Rightarrow> nat \<Rightarrow> string" where
  "sender_at senders i = (if i < length senders then senders ! i else [])"

definition mailSubject_of :: "mail_item list \<Rightarrow> string" where
  "mailSubject_of items = (case items of [] \<Rightarrow> [] | it # _ \<Rightarrow> json_or_empty (item_subject it))"

definition mailSnippet_of :: "mail_item list \<Rightarrow> string" where
  "mailSnippet_of items = (case items of [] \<Rightarrow> [] | it # _ \<Rightarrow> json_or_empty (item_snippet it))"

definition fill_email :: "mail_item list \<Rightarrow> dev_state \<Rightarrow> dev_state" where
  "fill_email items s =
     (if length items > 0
      then
        let senders = mail_senders items;
            mailCount = length senders;
            s1 = s\<lparr>gMailSelected := copyToBuffer (gMailSelected s) 64 (sender_at senders 0),
                   gMailSlotPrimary :=
                     copyToBuffer (gMailSlotPrimary s) 64 (if mailCount > 1 then sender_at senders 1 else []),
                   gMailSender :=
                     copyToBuffer (gMailSender s) 64 (if mailCount > 2 then sender_at senders 2 else []),
                   gMailSummary := copyToBuffer (gMailSummary s) 192 (mailSnippet_of items)\<rparr>
        in updateMailSummaryLines (gMailSummary s1) s1
      else s)"

text \<open>The signature (716-730): built in a \<open>String\<close>, cut to the 511 bytes that fit
  \<open>newSig\<close>.\<close>

definition build_signature :: "(string \<times> string) list \<Rightarrow> mail_item list \<Rightarrow> string" where
  "build_signature kept items =
     (let count = length kept;
          sig = ''cal:'' @ dec_string count
                @ concat (map (\<lambda>entry. ''|'' @ fst entry) kept)
                @ (if count > 0 then ''|loc0:'' @ snd (kept ! 0) else [])
                @ '';mail:'' @ mailSubject_of items @ ''|'' @ sender_at (mail_senders items) 0
                @ ''|'' @ mailSnippet_of items
      in c_str (take 511 sig))"

text \<open>The redraw decision (731-750), after the signature is known.\<close>

definition redraw_after_fetch :: "wallclock \<Rightarrow> string \<Rightarrow> dev_state \<Rightarrow> dev_state" where
  "redraw_after_fetch clk newSig s =
     (let contentChanged = (lastStateSignature s \<noteq> newSig);
          s1 = (if contentChanged then s\<lparr>lastStateSignature := take 511 newSig\<rparr> else s);
          s2 = updateTime clk s1;
          s3 = s2\<lparr>stateReady := True\<rparr>;
          s4 = updateStatusCharacteristic ''ready'' s3
      in if currentUi s4 = Provisioning
         then (refreshDisplayForMode Calendar s4)\<lparr>minuteRefreshPending := False\<rparr>
         else if contentChanged \<or> minuteRefreshPending s4
         then (refreshCurrentDisplay s4)\<lparr>minuteRefreshPending := False\<rparr>
         else s4)"

text \<open>\<open>fetchDeviceState\<close> (584-752); \<open>st_doc\<close> is the decoded body, \<open>None\<close> when
  \<open>deserializeJson\<close> reports an error.\<close>

definition fetchDeviceState :: "env \<Rightarrow> dev_state \<Rightarrow> bool \<times> dev_state" where
  "fetchDeviceState e s =
     (if \<not> wifiConnected s \<or> deviceId s = [] \<or> deviceSecret s = [] then (False, s)
      else if \<not> st_begin_ok e then (False, s)
      else
        let s1 = emit (HttpGet (BACKEND_BASE_URL @ STATE_ENDPOINT)
                         [(''X-Device-Id'', deviceId s), (''X-Device-Secret'', deviceSecret s)]) s
        in if st_code e = HTTP_CODE_CONFLICT
           then (False, updateStatusCharacteristic ''waiting_for_claim'' (s1\<lparr>stateReady := False\<rparr>))
           else if st_code e \<noteq> HTTP_CODE_OK then (False, s1)
           else
             (case st_doc e of
                None \<Rightarrow> (False, s1)
              | Some doc \<Rightarrow>
                  let kept = collect_today (clock e) 0 (cal_items doc);
                      s2 = fill_calendar kept s1;
                      s3 = fill_email (email_items doc) s2;
                      newSig = build_signature kept (email_items doc)
                  in (True, redraw_after_fetch (clock e) newSig s3)))"

subsection \<open>Reset, boot and the loop\<close>

text \<open>\<open>performFactoryReset\<close> (779-814), up to the call of \<open>ESP.restart()\<close>.\<close>

definition performFactoryReset :: "env \<Rightarrow> dev_state \<Rightarrow> dev_state" where
  "performFactoryReset e s =
     (let s1 = s\<lparr>prefs := (prefs s)(PREF_WIFI_SSID := None, PREF_WIFI_PASS := None,
                                     PREF_DEVICE_ID := None, PREF_DEVICE_SECRET := None,
                                     PREF_PAIRING_TOKEN := None, PREF_BLE_NAME := None,
                                     PREF_FIRMWARE := None)\<rparr>;
          s2 = s1\<lparr>wifiSsid := [], wifiPassword := [], deviceId := [], deviceSecret := [],
                  pairingToken := [], bleName := defaultBleName e\<rparr>;
          s3 = s2\<lparr>wifiConnected := False, deviceRegistered := False, stateReady := False,
                  currentUi := Provisioning\<rparr>;
          s4 = (if bleInitialized s3 then (emit BleDeinit s3)\<lparr>bleInitialized := False\<rparr> else s3)
      in emit Restart s4)"

text \<open>\<open>setup\<close> (816-855), run on the state that \<open>power_on\<close> gives.\<close>

definition setup_fw :: "env \<Rightarrow> dev_state \<Rightarrow> dev_state" where
  "setup_fw e s =
     (let s1 = s\<lparr>wifiSsid := getString (prefs s) PREF_WIFI_SSID [],
                 wifiPassword := getString (prefs s) PREF_WIFI_PASS [],
                 deviceId := getString (prefs s) PREF_DEVICE_ID [],
                 deviceSecret := getString (prefs s) PREF_DEVICE_SECRET [],
                 pairingToken := getString (prefs s) PREF_PAIRING_TOKEN [],
                 bleName := getString (prefs s) PREF_BLE_NAME (defaultBleName e)\<rparr>;
          s2 = startBleProvisioning s1;
          s3 = handleProvisioningUi (ms e ProvUi) s2
      in if wifiSsid s3 \<noteq> []
         then attemptWifiConnection (wifi_attempt_stored e) (clock e) (wifiSsid s3) (wifiPassword s3) s3
         else s3)"

text \<open>The minute check at the head of \<open>loop\<close> (863-881).\<close>

definition minute_tick :: "env \<Rightarrow> dev_state \<Rightarrow> bool" where
  "minute_tick e s =
     (ms e LoopStart - lastTimeUpdate s > TIME_CHECK_INTERVAL_MS
      \<and> getCurrentTimeString (clock e) \<noteq> lastTimeString s)"

definition loop_clock :: "env \<Rightarrow> dev_state \<Rightarrow> dev_state" where
  "loop_clock e s =
     (let now = ms e LoopStart in
      if now - lastTimeUpdate s > TIME_CHECK_INTERVAL_MS
      then
        let s1 = s\<lparr>lastTimeUpdate := now\<rparr>;
            currentTime = getCurrentTimeString (clock e)
        in if currentTime \<noteq> lastTimeString s1
           then
             let s2 = s1\<lparr>lastTimeString := currentTime\<rparr>;
                 s3 = updateTime (clock e) s2;
                 s4 = s3\<lparr>minuteRefreshPending := True\<rparr>
             in if wifiConnected s4 \<and> deviceRegistered s4
                then s4\<lparr>lastStateFetch := 0\<rparr>
                else if stateReady s4 \<and> currentUi s4 \<noteq> Provisioning
                then (refreshCurrentDisplay s4)\<lparr>minuteRefreshPending := False\<rparr>
                else s4
           else s1
      else s)"

text \<open>Taking over new credentials (883-899).\<close>

definition loop_credentials :: "env \<Rightarrow> dev_state \<Rightarrow> dev_state" where
  "loop_credentials e s =
     (if credentialsUpdated s
      then
        let s1 = s\<lparr>credentialsUpdated := False\<rparr> in
        if pendingSsid s1 \<noteq> []
        then
          let s2 = s1\<lparr>deviceRegistered := False, stateReady := False,
                      deviceId := [], deviceSecret := [], pairingToken := []\<rparr>;
              s3 = s2\<lparr>prefs := (prefs s2)(PREF_DEVICE_ID := None, PREF_DEVICE_SECRET := None,
                                            PREF_PAIRING_TOKEN := None)\<rparr>;
              s4 = updateStatusCharacteristic ''connecting'' s3
          in attemptWifiConnection (wifi_attempt_credentials e) (clock e)
               (pendingSsid s4) (pendingPassword s4) s4
        else s1
      else s)"

text \<open>The mode button (935-956).\<close>

definition loop_mode_button :: "env \<Rightarrow> dev_state \<Rightarrow> dev_state" where
  "loop_mode_button e s =
     (let reading = mode_pin e;
          s1 = (if reading \<noteq> lastModeState s then s\<lparr>lastDebounceTime := ms e ModeEdge\<rparr> else s);
          s2 = (if ms e ModeCheck - lastDebounceTime s1 > debounceDelay
                then
                  if reading \<noteq> stableState s1
                  then
                    let s1a = s1\<lparr>stableState := reading\<rparr>;
                        s1b = updateTime (clock e) s1a;
                        buttonPressed = (stableState s1b \<and> \<not> lastButtonPressed s1b);
                        s1c = (if buttonPressed
                               then
                                 if currentUi s1b = Calendar
                                 then refreshDisplayForMode Email s1b
                                 else refreshDisplayForMode Calendar s1b
                               else s1b)
                    in s1c\<lparr>lastButtonPressed := stableState s1c\<rparr>
                  else s1
                else s1)
      in s2\<lparr>lastModeState := reading\<rparr>)"

text \<open>
  The reset button (959-975). \<open>Reboot\<close> carries the state in which \<open>ESP.restart()\<close> is
  called; nothing after the call runs.
\<close>

datatype outcome = Continue dev_state | Reboot dev_state

definition loop_reset_button :: "env \<Rightarrow> dev_state \<Rightarrow> outcome" where
  "loop_reset_button e s =
     (let resetReading = reset_pin e;
          s1 = (if resetReading \<noteq> lastResetState s
                then s\<lparr>lastResetDebounceTime := ms e ResetEdge\<rparr> else s)
      in if ms e ResetCheck - lastResetDebounceTime s1 > resetDebounceDelay
         then
           if resetReading \<noteq> resetStableState s1
           then
             let s2 = s1\<lparr>resetStableState := resetReading\<rparr>;
                 resetPressed = (resetStableState s2 \<and> \<not> lastResetPressed s2)
             in if resetPressed then Reboot (performFactoryReset e s2)
                else Continue (s2\<lparr>lastResetPressed := resetStableState s2,
                                  lastResetState := resetReading\<rparr>)
           else Continue (s1\<lparr>lastResetState := resetReading\<rparr>)
         else Continue (s1\<lparr>lastResetState := resetReading\<rparr>))"

text \<open>Heartbeat and state fetch (920-928).\<close>

definition loop_sync :: "env \<Rightarrow> dev_state \<Rightarrow> dev_state" where
  "loop_sync e s =
     (let s1 = (if ms e HeartbeatCheck - lastHeartbeat s > HEARTBEAT_INTERVAL_MS
                then sendHeartbeat e (s\<lparr>lastHeartbeat := ms e HeartbeatSet\<rparr>)
                else s)
      in if ms e FetchCheck - lastStateFetch s1 > STATE_REFRESH_INTERVAL_MS \<or> \<not> stateReady s1
         then snd (fetchDeviceState e (s1\<lparr>lastStateFetch := ms e FetchSet\<rparr>))
         else s1)"

text \<open>\<open>loop\<close> (861-979).\<close>

definition loop_online :: "env \<Rightarrow> dev_state \<Rightarrow> outcome" where
  "loop_online e s =
     (let s1 = loop_sync e s in
      if \<not> stateReady s1 then Continue (handleProvisioningUi (ms e ProvUi) s1)
      else loop_reset_button e (loop_mode_button e s1))"

definition loop :: "env \<Rightarrow> dev_state \<Rightarrow> outcome" where
  "loop e s =
     (let s1 = loop_clock e s;
          s2 = loop_credentials e s1
      in case ensureWifiConnection e s2 of
           (connected, s3) \<Rightarrow>
             if \<not> connected
             then Continue (ensureBleAdvertising (handleProvisioningUi (ms e ProvUi) s3))
             else if \<not> deviceRegistered s3
             then
               (case registerDeviceWithBackend e s3 of
                  (registered, s4) \<Rightarrow>
                    let s5 = s4\<lparr>deviceRegistered := registered\<rparr> in
                    if \<not> deviceRegistered s5
                    then Continue (handleProvisioningUi (ms e ProvUi) s5)
                    else loop_online e s5)
             else loop_online e s3)"

text \<open>
  One pass of \<open>loop\<close> followed, when it ends in \<open>ESP.restart()\<close>, by the boot that the
  restart causes: the image is loaded again, the store is kept, and \<open>setup\<close> runs in the
  environment \<open>eb\<close>.
\<close>

definition tick :: "env \<Rightarrow> env \<Rightarrow> dev_state \<Rightarrow> dev_state" where
  "tick e eb s =
     (case loop e s of
        Continue s' \<Rightarrow> s'
      | Reboot s' \<Rightarrow> setup_fw eb (power_on (prefs s') (trace s')))"

subsection \<open>Observations\<close>

text \<open>
  What the statements below look at: which events are requests to the backend, the events
  a call adds to the trace, the display-facing snapshot with its stored fingerprint, and
  the identity record with its persisted copy.
\<close>

fun is_network_request :: "event \<Rightarrow> bool" where
  "is_network_request (HttpPost url hs body) = True"
| "is_network_request (HttpGet url hs) = True"
| "is_network_request ev = False"

definition new_events :: "dev_state \<Rightarrow> dev_state \<Rightarrow> event list" where
  "new_events s s' = drop (length (trace s)) (trace s')"

definition snapshot_of :: "dev_state \<Rightarrow> string list \<times> string list \<times> string" where
  "snapshot_of s =
     ([gCalSlotPrimary s, gCalSlotSecondary s, gCalSlotThird s, gCalLocation s, gCalSelected s,
       gMailSlotPrimary s, gMailSelected s, gMailSender s, gMailSummary s],
      mail_lines_buf s, lastStateSignature s)"

definition identity_of :: "dev_state \<Rightarrow> string list \<times> (string \<rightharpoonup> string)" where
  "identity_of s = ([deviceId s, deviceSecret s, pairingToken s, bleName s], prefs s)"

text \<open>
  The filter of the spec's data model: the items whose start is of today, and the calendar
  entry (time of day, summary, location) derived from an item.
\<close>

definition today_items :: "wallclock \<Rightarrow> cal_item list \<Rightarrow> cal_item list" where
  "today_items clk items = filter (\<lambda>it. isEventToday clk (json_or_empty (item_start it))) items"

definition entry_of :: "cal_item \<Rightarrow> string \<times> string \<times> string" where
  "entry_of it =
     (extractTimeFromISO (json_or_empty (item_start it)) 6,
      json_or_empty (item_summary it), json_or_empty (item_location it))"

definition entry_row :: "string \<times> string \<times> string \<Rightarrow> string \<times> string" where
  "entry_row en = (case en of (timeOfDay, summary, location) \<Rightarrow> (timeOfDay @ '' '' @ summary, location))"

text \<open>A call has redrawn when it added the drawing of the calendar or of the email view.\<close>

definition redrawn :: "dev_state \<Rightarrow> dev_state \<Rightarrow> bool" where
  "redrawn s s' = (DrawCalendar \<in> set (new_events s s') \<or> DrawEmail \<in> set (new_events s s'))"

text \<open>The draw event of a view, as \<open>refreshCurrentDisplay\<close> emits it.\<close>

fun view_event :: "UiMode \<Rightarrow> event list" where
  "view_event Calendar = [DrawCalendar]"
| "view_event Email = [DrawEmail]"
| "view_event Provisioning = []"

text \<open>
  The identity invariant: the two credentials in memory, and their persisted copies as
  \<open>setup\<close> reads them back. A registration response is paired when its id and secret
  are both empty or both non-empty.
\<close>

definition ident :: "dev_state \<Rightarrow> string \<times> string \<times> string \<times> string" where
  "ident s = (deviceId s, deviceSecret s,
              getString (prefs s) PREF_DEVICE_ID [], getString (prefs s) PREF_DEVICE_SECRET [])"

definition identity_inv :: "dev_state \<Rightarrow> bool" where
  "identity_inv s = ((deviceId s = []) = (deviceSecret s = []))"

definition stored_inv :: "(string \<rightharpoonup> string) \<Rightarrow> bool" where
  "stored_inv store =
     ((getString store PREF_DEVICE_ID [] = []) = (getString store PREF_DEVICE_SECRET [] = []))"

definition atomic_identity :: "dev_state \<Rightarrow> bool" where
  "atomic_identity s = (identity_inv s \<and> stored_inv (prefs s))"

definition reg_response_paired :: "env \<Rightarrow> bool" where
  "reg_response_paired e =
     (case reg_response e of None \<Rightarrow> True
      | Some response \<Rightarrow> (r_deviceId response = []) = (r_deviceSecret response = []))"

text \<open>
  The states before the first successful fetch. \<open>stateReady\<close> is false at boot and only
  a successful fetch sets it, after which it stays set to the end of that pass of the loop
  unless the pass ends in a restart; so a pass that continues with \<open>stateReady\<close> false
  has had no successful fetch. A restart leads to a boot state again.
\<close>

inductive never_synced :: "dev_state \<Rightarrow> bool" where
  boot: "never_synced (setup_fw e (power_on store tr))"
| payload: "never_synced s \<Longrightarrow> never_synced (onWrite raw s)"
| pass: "never_synced s \<Longrightarrow> loop e s = Continue s' \<Longrightarrow> \<not> stateReady s' \<Longrightarrow> never_synced s'"

subsection \<open>Sample inputs\<close>

text \<open>
  Concrete environments and states at which the theorems below are instantiated: a quiet
  environment; a connected device with and without credentials; the two calendar items of
  the spec's example with the clock on 2026-01-08 at 07:50; responses of the backend; a
  device showing a view; a pressed mode button; a minute tick early after boot.
\<close>

definition idle_env :: env where
  "idle_env = \<lparr> ms = (\<lambda>_. 0), clock = \<lparr>epoch = 0, tm_hour = 0, tm_min = 0, today = []\<rparr>,
     wifi_status_connected = False, wifi_attempt_credentials = False, wifi_attempt_stored = False,
     reg_begin_ok = False, reg_code = 0, reg_response = None, hb_begin_ok = False,
     st_begin_ok = False, st_code = 0, st_doc = None, mode_pin = False, reset_pin = False,
     mac_address = [], efuse_mac = 0, wifi_rssi = 0 \<rparr>"

definition registered_state :: dev_state where
  "registered_state = (power_on Map.empty [])\<lparr>wifiConnected := True, deviceId := ''dev-1'',
     deviceSecret := ''s3cret'', statusChar := True, pairingInfoChar := True\<rparr>"

definition standup_item :: cal_item where
  "standup_item = \<lparr>item_start = Some ''2026-01-08T07:50:00+01:00'', item_summary = Some ''Standup'',
                    item_location = None\<rparr>"

definition old_item :: cal_item where
  "old_item = \<lparr>item_start = Some ''2025-01-01T09:00:00+01:00'', item_summary = Some ''OldEvent'',
                item_location = None\<rparr>"

definition sample_clock :: wallclock where
  "sample_clock = \<lparr>epoch = 1767855000, tm_hour = 7, tm_min = 50, today = ''2026-01-08''\<rparr>"

definition sync_env :: "cal_item list \<Rightarrow> env" where
  "sync_env items = idle_env\<lparr>clock := sample_clock, st_begin_ok := True, st_code := 200,
     st_doc := Some \<lparr>cal_items = items, email_items = []\<rparr>\<rparr>"

definition conflict_env :: env where
  "conflict_env = idle_env\<lparr>st_begin_ok := True, st_code := 409\<rparr>"

definition viewing_state :: dev_state where
  "viewing_state = registered_state\<lparr>currentUi := Calendar, stateReady := True,
     lastStateSignature := ''cal:1|07:50 Standup|loc0:;mail:||''\<rparr>"

definition minute_env :: env where
  "minute_env = idle_env\<lparr>ms := (\<lambda>_. 2000), clock := sample_clock\<rparr>"

definition pending_viewing_state :: dev_state where
  "pending_viewing_state = viewing_state\<lparr>minuteRefreshPending := True\<rparr>"

definition offline_viewing_state :: dev_state where
  "offline_viewing_state = viewing_state\<lparr>wifiConnected := False\<rparr>"

definition press_env :: env where
  "press_env = idle_env\<lparr>ms := (\<lambda>_. 2000), mode_pin := True\<rparr>"

definition email_without_calendar :: dev_state where
  "email_without_calendar = viewing_state\<lparr>currentUi := Email, gCalSlotPrimary := [],
     lastModeState := True\<rparr>"

definition connected_state :: dev_state where
  "connected_state = (power_on Map.empty [])\<lparr>wifiConnected := True\<rparr>"

definition half_response_env :: env where
  "half_response_env = idle_env\<lparr>reg_begin_ok := True, reg_code := 201,
     reg_response := Some \<lparr>r_deviceId = ''dev-1'', r_deviceSecret = [],
                              r_pairingToken = ''tok'', r_bluetoothName = []\<rparr>\<rparr>"

definition full_response_env :: env where
  "full_response_env = idle_env\<lparr>reg_begin_ok := True, reg_code := 201,
     reg_response := Some \<lparr>r_deviceId = ''dev-1'', r_deviceSecret = ''s3cret'',
                              r_pairingToken = ''tok'', r_bluetoothName = []\<rparr>\<rparr>"

definition early_env :: env where
  "early_env = idle_env\<lparr>ms := (\<lambda>_. 30000), wifi_status_connected := True,
     st_begin_ok := True, st_code := 200\<rparr>"

definition online_viewing_state :: dev_state where
  "online_viewing_state = viewing_state\<lparr>deviceRegistered := True, lastTimeString := ''07:49'',
     lastTimeUpdate := 28000, lastStateFetch := 25000\<rparr>"

section \<open>Properties\<close>

subsection \<open>Registration of a device that already has its credentials\<close>

text \<open>
  Claim C1. In every state with an established connection in which \<open>deviceId\<close> and
  \<open>deviceSecret\<close> are both non-empty, \<open>registerDeviceWithBackend\<close> returns success,
  only extends the trace, adds no request to the backend to it (the two BLE notifications
  are all it adds), and leaves the identity fields and their persisted copy as they were.
\<close>

theorem register_short_circuit:
  assumes "wifiConnected s" and "deviceId s \<noteq> []" and "deviceSecret s \<noteq> []"
  shows "fst (registerDeviceWithBackend e s)
         \<and> trace (snd (registerDeviceWithBackend e s)) = trace s @ new_events s (snd (registerDeviceWithBackend e s))
         \<and> filter is_network_request (new_events s (snd (registerDeviceWithBackend e s))) = []
         \<and> identity_of (snd (registerDeviceWithBackend e s)) = identity_of s"
  using assms
  by (simp add: registerDeviceWithBackend_def updateStatusCharacteristic_def
      updatePairingCharacteristic_def emit_def new_events_def identity_of_def Let_def)

theorem register_short_circuit_witness:
  "wifiConnected registered_state \<and> deviceId registered_state \<noteq> [] \<and> deviceSecret registered_state \<noteq> []
   \<and> fst (registerDeviceWithBackend idle_env registered_state)
   \<and> filter is_network_request (new_events registered_state (snd (registerDeviceWithBackend idle_env registered_state))) = []
   \<and> identity_of (snd (registerDeviceWithBackend idle_env registered_state)) = identity_of registered_state"
proof -
  have h: "wifiConnected registered_state" "deviceId registered_state \<noteq> []" "deviceSecret registered_state \<noteq> []"
    by (simp_all add: registered_state_def power_on_def)
  from register_short_circuit [OF h, of idle_env] h show ?thesis by simp
qed

subsection \<open>Receiving credentials\<close>

text \<open>
  Claim C2, amended. A payload that is empty or has no newline leaves the whole state as
  it was, so neither pending field changes and the flag is not raised. A payload with a
  newline raises the flag, and the parts before and after the first newline, each cut at
  its first NUL byte, become \<open>pendingSsid\<close> and \<open>pendingPassword\<close>; when the payload
  has no NUL byte these are the two parts themselves.
\<close>

theorem onWrite_credentials:
  "(raw = [] \<or> CHR 0x0A \<notin> set raw \<longrightarrow> onWrite raw s = s)
   \<and> (CHR 0x0A \<in> set raw \<longrightarrow>
        pendingSsid (onWrite raw s) = c_str (takeWhile (\<lambda>c. c \<noteq> CHR 0x0A) raw)
        \<and> pendingPassword (onWrite raw s) = c_str (tl (dropWhile (\<lambda>c. c \<noteq> CHR 0x0A) raw))
        \<and> credentialsUpdated (onWrite raw s))
   \<and> (CHR 0x0A \<in> set raw \<and> CHR 0x00 \<notin> set raw \<longrightarrow>
        pendingSsid (onWrite raw s) = takeWhile (\<lambda>c. c \<noteq> CHR 0x0A) raw
        \<and> pendingPassword (onWrite raw s) = tl (dropWhile (\<lambda>c. c \<noteq> CHR 0x0A) raw))"
proof -
  let ?P = "\<lambda>c. c \<noteq> CHR 0x0A"
  have before: "take (length (takeWhile ?P raw)) raw = takeWhile ?P raw"
    by (rule takeWhile_eq_take [symmetric])
  have after: "drop (length (takeWhile ?P raw) + 1) raw = tl (dropWhile ?P raw)"
    by (simp add: dropWhile_eq_drop drop_Suc tl_drop)
  have nonempty: "CHR 0x0A \<in> set raw \<Longrightarrow> raw \<noteq> []"
    by auto
  have discard: "raw = [] \<or> CHR 0x0A \<notin> set raw \<longrightarrow> onWrite raw s = s"
    by (auto simp: onWrite_def)
  have split: "CHR 0x0A \<in> set raw \<longrightarrow>
        pendingSsid (onWrite raw s) = c_str (takeWhile ?P raw)
        \<and> pendingPassword (onWrite raw s) = c_str (tl (dropWhile ?P raw))
        \<and> credentialsUpdated (onWrite raw s)"
    using before after nonempty by (simp add: onWrite_def Let_def)
  have nul_free: "CHR 0x00 \<notin> set xs \<Longrightarrow> c_str xs = xs" for xs
    by (auto simp: c_str_def)
  have in_tl: "x \<in> set (tl xs) \<Longrightarrow> x \<in> set xs" for x :: char and xs
    by (cases xs) auto
  have "CHR 0x00 \<notin> set raw \<Longrightarrow> CHR 0x00 \<notin> set (takeWhile ?P raw)"
    by (auto dest: set_takeWhileD)
  moreover have "CHR 0x00 \<notin> set raw \<Longrightarrow> CHR 0x00 \<notin> set (tl (dropWhile ?P raw))"
    using in_tl [of "CHR 0x00" "dropWhile ?P raw"] by (auto dest: set_dropWhileD)
  ultimately have plain: "CHR 0x0A \<in> set raw \<and> CHR 0x00 \<notin> set raw \<longrightarrow>
        pendingSsid (onWrite raw s) = takeWhile ?P raw
        \<and> pendingPassword (onWrite raw s) = tl (dropWhile ?P raw)"
    using split nul_free by simp
  from discard split plain show ?thesis by blast
qed

theorem onWrite_credentials_witness:
  "CHR 0x0A \<in> set (''net'' @ [CHR 0x0A] @ ''pw'') \<and> CHR 0x00 \<notin> set (''net'' @ [CHR 0x0A] @ ''pw'')
   \<and> pendingSsid (onWrite (''net'' @ [CHR 0x0A] @ ''pw'') (power_on Map.empty [])) = ''net''
   \<and> pendingPassword (onWrite (''net'' @ [CHR 0x0A] @ ''pw'') (power_on Map.empty [])) = ''pw''
   \<and> credentialsUpdated (onWrite (''net'' @ [CHR 0x0A] @ ''pw'') (power_on Map.empty []))
   \<and> onWrite ''net'' (power_on Map.empty []) = power_on Map.empty []"
  using onWrite_credentials [of "''net'' @ [CHR 0x0A] @ ''pw''" "power_on Map.empty []"]
    onWrite_credentials [of "''net''" "power_on Map.empty []"]
  by (simp add: c_str_def)

text \<open>
  The claim as written, with the parts themselves becoming the credentials, fails for a
  payload with a NUL byte before the newline: of the bytes \<open>a NUL b newline p\<close> only \<open>a\<close>
  reaches \<open>pendingSsid\<close>.
\<close>

theorem onWrite_counterexample:
  "CHR 0x0A \<in> set [CHR ''a'', CHR 0x00, CHR ''b'', CHR 0x0A, CHR ''p'']
   \<and> pendingSsid (onWrite [CHR ''a'', CHR 0x00, CHR ''b'', CHR 0x0A, CHR ''p''] (power_on Map.empty []))
       \<noteq> takeWhile (\<lambda>c. c \<noteq> CHR 0x0A) [CHR ''a'', CHR 0x00, CHR ''b'', CHR 0x0A, CHR ''p'']"
  by (simp add: onWrite_def c_str_def power_on_def)

subsection \<open>Fetching the state\<close>

lemma isEventToday_empty [simp]: "\<not> isEventToday clk []"
  by (simp add: isEventToday_def)

lemma collect_today_filter:
  "collect_today clk n items = map (entry_row \<circ> entry_of) (take (3 - n) (today_items clk items))"
proof (induction items arbitrary: n)
  case Nil
  then show ?case by (simp add: today_items_def)
next
  case (Cons it items)
  show ?case
  proof (cases "n < 3")
    case False
    then show ?thesis by simp
  next
    case True
    then obtain k where k: "3 - n = Suc k" "3 - Suc n = k"
      by (cases "3 - n") auto
    show ?thesis
    proof (cases "isEventToday clk (json_or_empty (item_start it))")
      case False
      with True Cons.IH [of n] show ?thesis
        by (simp add: today_items_def Let_def)
    next
      case today: True
      then have "json_or_empty (item_start it) \<noteq> []"
        by auto
      with True today k Cons.IH [of "Suc n"] show ?thesis
        by (simp add: today_items_def Let_def entry_row_def entry_of_def)
    qed
  qed
qed

lemma collect_today_empty_iff:
  "collect_today clk 0 items = [] \<longleftrightarrow> today_items clk items = []"
  by (simp add: collect_today_filter)

lemma entries_determine_kept:
  assumes "map entry_of (today_items c1 items1) = map entry_of (today_items c2 items2)"
  shows "collect_today c1 0 items1 = collect_today c2 0 items2"
proof -
  have "collect_today c 0 items = map entry_row (take 3 (map entry_of (today_items c items)))" for c items
    by (simp add: collect_today_filter take_map)
  with assms show ?thesis by simp
qed

lemma c_str_nul_free: "CHR 0x00 \<notin> set (c_str bytes)"
  by (auto simp: c_str_def dest: set_takeWhileD)

lemma json_or_empty_nul_free: "CHR 0x00 \<notin> set (json_or_empty v)"
  by (cases v) (simp_all add: json_or_empty_def c_str_nul_free)

lemma c_str_take_nonempty: "f \<noteq> [] \<Longrightarrow> hd f \<noteq> CHR 0x00 \<Longrightarrow> 0 < n \<Longrightarrow> c_str (take n f) \<noteq> []"
  by (cases f; cases n) (simp_all add: c_str_def)

lemma c_str_take_length: "length (c_str (take n xs)) \<le> n"
proof -
  have "length (c_str (take n xs)) \<le> length (take n xs)"
    unfolding c_str_def by (rule length_takeWhile_le)
  then show ?thesis by simp
qed

lemma extractTime_head:
  assumes "CHR 0x00 \<notin> set isoTime"
  shows "extractTimeFromISO isoTime 6 \<noteq> [] \<and> hd (extractTimeFromISO isoTime 6) \<noteq> CHR 0x00"
proof (cases "length isoTime > 16")
  case False
  then show ?thesis by (simp add: extractTimeFromISO_def)
next
  case True
  then have ne: "drop 11 isoTime \<noteq> []" by simp
  then have "hd (drop 11 isoTime) \<in> set isoTime"
    by (metis hd_in_set in_set_dropD)
  with assms have "hd (drop 11 isoTime) \<noteq> CHR 0x00" by metis
  with True ne show ?thesis
    by (cases "drop 11 isoTime") (simp_all add: extractTimeFromISO_def)
qed

lemma entry_row_head:
  "fst (entry_row (entry_of it)) \<noteq> [] \<and> hd (fst (entry_row (entry_of it))) \<noteq> CHR 0x00"
  using extractTime_head [OF json_or_empty_nul_free, of "item_start it"]
  by (simp add: entry_row_def entry_of_def hd_append)

lemma kept_primary_nonempty:
  assumes "collect_today clk 0 items \<noteq> []"
  shows "c_str (take 63 (fst (collect_today clk 0 items ! 0))) \<noteq> []"
proof -
  from assms obtain it rest where "take 3 (today_items clk items) = it # rest"
    by (cases "take 3 (today_items clk items)") (simp_all add: collect_today_filter)
  then have "collect_today clk 0 items ! 0 = entry_row (entry_of it)"
    by (simp add: collect_today_filter)
  then show ?thesis
    using entry_row_head [of it] by (simp add: c_str_take_nonempty)
qed

lemma build_signature_length: "length (build_signature kept items) \<le> 511"
  unfolding build_signature_def Let_def by (rule c_str_take_length)

lemma fetch_success:
  assumes "fetchDeviceState e s = (True, s')"
  shows "\<exists>doc. st_doc e = Some doc \<and> wifiConnected s \<and> deviceId s \<noteq> [] \<and> deviceSecret s \<noteq> []
           \<and> st_begin_ok e \<and> st_code e = HTTP_CODE_OK
           \<and> s' = redraw_after_fetch (clock e)
                    (build_signature (collect_today (clock e) 0 (cal_items doc)) (email_items doc))
                    (fill_email (email_items doc)
                      (fill_calendar (collect_today (clock e) 0 (cal_items doc))
                        (emit (HttpGet (BACKEND_BASE_URL @ STATE_ENDPOINT)
                                 [(''X-Device-Id'', deviceId s), (''X-Device-Secret'', deviceSecret s)]) s)))"
  using assms
  by (auto simp: fetchDeviceState_def Let_def split: if_splits option.splits)

lemma redraw_signature:
  "length newSig \<le> 511 \<Longrightarrow> lastStateSignature (redraw_after_fetch clk newSig s) = newSig"
  by (simp add: redraw_after_fetch_def Let_def updateTime_def updateStatusCharacteristic_def
      refreshDisplayForMode_def refreshCurrentDisplay_def emit_def)

lemma fill_calendar_frame [simp]:
  "currentUi (fill_calendar kept s) = currentUi s"
  "trace (fill_calendar kept s) = trace s"
  "lastStateSignature (fill_calendar kept s) = lastStateSignature s"
  "minuteRefreshPending (fill_calendar kept s) = minuteRefreshPending s"
  "statusChar (fill_calendar kept s) = statusChar s"
  by (simp_all add: fill_calendar_def Let_def)

lemma fill_email_frame [simp]:
  "currentUi (fill_email items s) = currentUi s"
  "trace (fill_email items s) = trace s"
  "lastStateSignature (fill_email items s) = lastStateSignature s"
  "minuteRefreshPending (fill_email items s) = minuteRefreshPending s"
  "statusChar (fill_email items s) = statusChar s"
  "gCalSlotPrimary (fill_email items s) = gCalSlotPrimary s"
  by (simp_all add: fill_email_def updateMailSummaryLines_def Let_def)

lemma fill_calendar_primary:
  "gCalSlotPrimary (fill_calendar (collect_today clk 0 items) s) = [] \<longleftrightarrow> today_items clk items = []"
proof (cases "collect_today clk 0 items = []")
  case True
  then show ?thesis
    by (simp add: fill_calendar_def copyToBuffer_def c_str_def collect_today_empty_iff [symmetric])
next
  case False
  with kept_primary_nonempty [OF False] show ?thesis
    by (simp add: fill_calendar_def copyToBuffer_def Let_def collect_today_empty_iff [symmetric])
qed

lemma redraw_keeps_primary [simp]:
  "gCalSlotPrimary (redraw_after_fetch clk newSig s) = gCalSlotPrimary s"
  by (simp add: redraw_after_fetch_def Let_def updateTime_def updateStatusCharacteristic_def
      refreshDisplayForMode_def refreshCurrentDisplay_def emit_def)

lemma redraw_from_provisioning:
  assumes "currentUi s = Provisioning"
  shows "currentUi (redraw_after_fetch clk newSig s) = (if gCalSlotPrimary s = [] then Email else Calendar)"
    and "trace (redraw_after_fetch clk newSig s)
         = trace s @ (if statusChar s then [StatusNotify ''ready''] else [])
             @ [PageStart, if gCalSlotPrimary s = [] then DrawEmail else DrawCalendar]"
  using assms
  by (simp_all add: redraw_after_fetch_def Let_def updateTime_def updateStatusCharacteristic_def
      refreshDisplayForMode_def emit_def c_str_def)

lemma redraw_from_view:
  assumes "currentUi s \<noteq> Provisioning"
  shows "currentUi (redraw_after_fetch clk newSig s) = currentUi s"
    and "trace (redraw_after_fetch clk newSig s)
         = trace s @ (if statusChar s then [StatusNotify ''ready''] else [])
             @ (if lastStateSignature s \<noteq> newSig \<or> minuteRefreshPending s
                then [PageStart, if currentUi s = Calendar then DrawCalendar else DrawEmail]
                else [])"
  using assms
  by (cases "currentUi s";
      simp add: redraw_after_fetch_def Let_def updateTime_def updateStatusCharacteristic_def
        refreshCurrentDisplay_def emit_def c_str_def)+

lemma redraw_clears_pending:
  "\<not> minuteRefreshPending (redraw_after_fetch clk newSig s)"
  by (simp add: redraw_after_fetch_def Let_def updateTime_def updateStatusCharacteristic_def emit_def)

lemma fetch_promotes:
  assumes "fetchDeviceState e s = (True, s')" and "st_doc e = Some doc"
    and "currentUi s = Provisioning"
  shows "currentUi s' = (if today_items (clock e) (cal_items doc) = [] then Email else Calendar)"
proof -
  let ?s3 = "fill_email (email_items doc)
               (fill_calendar (collect_today (clock e) 0 (cal_items doc))
                 (emit (HttpGet (BACKEND_BASE_URL @ STATE_ENDPOINT)
                          [(''X-Device-Id'', deviceId s), (''X-Device-Secret'', deviceSecret s)]) s))"
  from fetch_success [OF assms(1)] assms(2)
  have s': "s' = redraw_after_fetch (clock e)
                  (build_signature (collect_today (clock e) 0 (cal_items doc)) (email_items doc)) ?s3"
    by auto
  have "currentUi ?s3 = Provisioning"
    using assms(3) by (simp add: emit_def)
  from redraw_from_provisioning(1) [OF this] s' show ?thesis
    by (simp add: fill_calendar_primary)
qed

subsubsection \<open>Sample fetches\<close>

lemma fetch_sample:
  "fetchDeviceState (sync_env items) registered_state
     = (True, snd (fetchDeviceState (sync_env items) registered_state))"
  by (simp add: fetchDeviceState_def sync_env_def idle_env_def registered_state_def power_on_def
      HTTP_CODE_CONFLICT_def HTTP_CODE_OK_def Let_def)

lemma fetch_sample_viewing:
  "fetchDeviceState (sync_env items) viewing_state
     = (True, snd (fetchDeviceState (sync_env items) viewing_state))"
  by (simp add: fetchDeviceState_def sync_env_def idle_env_def registered_state_def power_on_def
      viewing_state_def HTTP_CODE_CONFLICT_def HTTP_CODE_OK_def Let_def)

lemma fetch_sample_pending:
  "fetchDeviceState (sync_env items) pending_viewing_state
     = (True, snd (fetchDeviceState (sync_env items) pending_viewing_state))"
  by (simp add: fetchDeviceState_def sync_env_def idle_env_def registered_state_def power_on_def
      viewing_state_def pending_viewing_state_def HTTP_CODE_CONFLICT_def HTTP_CODE_OK_def Let_def)

lemma today_items_old: "today_items sample_clock [old_item] = []"
  by (simp add: today_items_def isEventToday_def sample_clock_def old_item_def json_or_empty_def c_str_def)

lemma today_items_standup: "today_items sample_clock [standup_item, old_item] = [standup_item]"
  by (simp add: today_items_def isEventToday_def sample_clock_def old_item_def standup_item_def
      json_or_empty_def c_str_def)

lemma today_items_standup': "today_items sample_clock [old_item, old_item, standup_item] = [standup_item]"
  by (simp add: today_items_def isEventToday_def sample_clock_def old_item_def standup_item_def
      json_or_empty_def c_str_def)

lemma kept_sample:
  "collect_today sample_clock 0 [standup_item, old_item] = [entry_row (entry_of standup_item)]"
  unfolding collect_today_filter today_items_standup by simp

lemma row_sample: "entry_row (entry_of standup_item) = (''07:50 Standup'', [])"
  by (simp add: entry_row_def entry_of_def standup_item_def json_or_empty_def c_str_def
      extractTimeFromISO_def)

lemma sample_signature:
  "build_signature (collect_today sample_clock 0 [standup_item, old_item]) []
   = ''cal:1|07:50 Standup|loc0:;mail:||''"
  unfolding kept_sample row_sample
  by (simp add: build_signature_def c_str_def dec_string.simps [of "Suc 0"] digit_char_def
      mailSubject_of_def mailSnippet_of_def sender_at_def mail_senders_def Let_def)

subsubsection \<open>The conflict response\<close>

text \<open>
  Claim C3. A fetch that is sent and answered with 409 returns failure and leaves every
  calendar and email display buffer and the stored fingerprint as they were. The status
  characteristic existing, it adds to the trace the request and the notification
  \<open>waiting_for_claim\<close>, which is also the content of the status buffer afterwards.
  (\<open>setup\<close> creates the characteristic and no pass of the loop removes it: lemmas
  \<open>setup_creates_status_channel\<close> and \<open>loop_keeps_status_channel\<close> below.)
\<close>

theorem fetch_conflict:
  assumes "wifiConnected s" and "deviceId s \<noteq> []" and "deviceSecret s \<noteq> []"
    and "st_begin_ok e" and "st_code e = 409" and "statusChar s"
  shows "\<not> fst (fetchDeviceState e s)
         \<and> snapshot_of (snd (fetchDeviceState e s)) = snapshot_of s
         \<and> new_events s (snd (fetchDeviceState e s))
             = [HttpGet (BACKEND_BASE_URL @ STATE_ENDPOINT)
                  [(''X-Device-Id'', deviceId s), (''X-Device-Secret'', deviceSecret s)],
                StatusNotify ''waiting_for_claim'']
         \<and> statusBuffer (snd (fetchDeviceState e s)) = ''waiting_for_claim''"
  using assms
  by (simp add: fetchDeviceState_def HTTP_CODE_CONFLICT_def Let_def updateStatusCharacteristic_def
      emit_def snapshot_of_def new_events_def c_str_def)

theorem fetch_conflict_witness:
  "wifiConnected registered_state \<and> deviceId registered_state \<noteq> [] \<and> deviceSecret registered_state \<noteq> []
   \<and> st_begin_ok conflict_env \<and> st_code conflict_env = 409 \<and> statusChar registered_state
   \<and> \<not> fst (fetchDeviceState conflict_env registered_state)
   \<and> snapshot_of (snd (fetchDeviceState conflict_env registered_state)) = snapshot_of registered_state
   \<and> statusBuffer (snd (fetchDeviceState conflict_env registered_state)) = ''waiting_for_claim''"
proof -
  have h: "wifiConnected registered_state" "deviceId registered_state \<noteq> []"
    "deviceSecret registered_state \<noteq> []" "st_begin_ok conflict_env" "st_code conflict_env = 409"
    "statusChar registered_state"
    by (simp_all add: registered_state_def power_on_def conflict_env_def idle_env_def)
  from fetch_conflict [OF h] h show ?thesis by simp
qed

subsubsection \<open>The redraw policy\<close>

text \<open>
  Claim C4. A fetch that returns success had a decodable document. If the mode was
  Provisioning, the mode becomes Calendar, or Email when no item of the document is of
  today, and that view is drawn last. Otherwise the mode stays, and a view is drawn if and
  only if the fingerprint of the document differs from the stored fingerprint
  \<open>lastStateSignature\<close> or a minute refresh is pending. In both cases the fetch leaves
  the fingerprint of the document as the stored fingerprint, so that the next fetch
  compares against the data of this one, and it leaves no minute refresh pending: a redraw
  clears the flag, and without a redraw the flag was not set.
\<close>

theorem fetch_redraw_policy:
  assumes "fetchDeviceState e s = (True, s')"
  shows "\<exists>doc. st_doc e = Some doc
           \<and> lastStateSignature s'
               = build_signature (collect_today (clock e) 0 (cal_items doc)) (email_items doc)
           \<and> (redrawn s s' \<longrightarrow> \<not> minuteRefreshPending s')
           \<and> (\<not> redrawn s s' \<longrightarrow>
                minuteRefreshPending s' = minuteRefreshPending s
                \<and> lastStateSignature s' = lastStateSignature s)
           \<and> (currentUi s = Provisioning \<longrightarrow>
                currentUi s' = (if today_items (clock e) (cal_items doc) = [] then Email else Calendar)
                \<and> redrawn s s'
                \<and> last (trace s') = (if currentUi s' = Email then DrawEmail else DrawCalendar))
           \<and> (currentUi s \<noteq> Provisioning \<longrightarrow>
                currentUi s' = currentUi s
                \<and> (redrawn s s' \<longleftrightarrow>
                     build_signature (collect_today (clock e) 0 (cal_items doc)) (email_items doc)
                       \<noteq> lastStateSignature s
                     \<or> minuteRefreshPending s))"
proof -
  from fetch_success [OF assms] obtain doc where doc: "st_doc e = Some doc"
    and s': "s' = redraw_after_fetch (clock e)
                    (build_signature (collect_today (clock e) 0 (cal_items doc)) (email_items doc))
                    (fill_email (email_items doc)
                      (fill_calendar (collect_today (clock e) 0 (cal_items doc))
                        (emit (HttpGet (BACKEND_BASE_URL @ STATE_ENDPOINT)
                                 [(''X-Device-Id'', deviceId s), (''X-Device-Secret'', deviceSecret s)]) s)))"
    by blast
  let ?kept = "collect_today (clock e) 0 (cal_items doc)"
  let ?sig = "build_signature ?kept (email_items doc)"
  let ?s1 = "emit (HttpGet (BACKEND_BASE_URL @ STATE_ENDPOINT)
                [(''X-Device-Id'', deviceId s), (''X-Device-Secret'', deviceSecret s)]) s"
  let ?s3 = "fill_email (email_items doc) (fill_calendar ?kept ?s1)"
  have s1: "currentUi ?s1 = currentUi s" "lastStateSignature ?s1 = lastStateSignature s"
    "minuteRefreshPending ?s1 = minuteRefreshPending s"
    by (simp_all add: emit_def)
  have primary: "gCalSlotPrimary ?s3 = [] \<longleftrightarrow> today_items (clock e) (cal_items doc) = []"
    by (simp add: fill_calendar_primary)
  have stored: "lastStateSignature s' = ?sig"
    unfolding s' by (rule redraw_signature) (rule build_signature_length)
  have cleared: "\<not> minuteRefreshPending s'"
    unfolding s' by (rule redraw_clears_pending)
  have prov: "currentUi s = Provisioning \<longrightarrow>
                currentUi s' = (if today_items (clock e) (cal_items doc) = [] then Email else Calendar)
                \<and> redrawn s s'
                \<and> last (trace s') = (if currentUi s' = Email then DrawEmail else DrawCalendar)"
  proof
    assume p: "currentUi s = Provisioning"
    then have "currentUi ?s3 = Provisioning" by (simp add: s1)
    from redraw_from_provisioning [OF this, of "clock e" ?sig] primary s'
    show "currentUi s' = (if today_items (clock e) (cal_items doc) = [] then Email else Calendar)
                \<and> redrawn s s'
                \<and> last (trace s') = (if currentUi s' = Email then DrawEmail else DrawCalendar)"
      by (simp add: redrawn_def new_events_def emit_def)
  qed
  have view: "currentUi s \<noteq> Provisioning \<longrightarrow>
                currentUi s' = currentUi s
                \<and> (redrawn s s' \<longleftrightarrow> ?sig \<noteq> lastStateSignature s \<or> minuteRefreshPending s)"
  proof
    assume p: "currentUi s \<noteq> Provisioning"
    then have "currentUi ?s3 \<noteq> Provisioning" by (simp add: s1)
    from redraw_from_view [OF this, of "clock e" ?sig] s' s1
    show "currentUi s' = currentUi s
                \<and> (redrawn s s' \<longleftrightarrow> ?sig \<noteq> lastStateSignature s \<or> minuteRefreshPending s)"
      by (auto simp: redrawn_def new_events_def emit_def)
  qed
  have quiet: "\<not> redrawn s s' \<longrightarrow>
                minuteRefreshPending s' = minuteRefreshPending s
                \<and> lastStateSignature s' = lastStateSignature s"
    using prov view stored cleared by (cases "currentUi s = Provisioning") auto
  from doc stored cleared quiet prov view show ?thesis by blast
qed

theorem fetch_redraw_policy_witness:
  "fst (fetchDeviceState (sync_env [standup_item, old_item]) registered_state)
   \<and> currentUi registered_state = Provisioning
   \<and> currentUi (snd (fetchDeviceState (sync_env [standup_item, old_item]) registered_state)) = Calendar
   \<and> redrawn registered_state (snd (fetchDeviceState (sync_env [standup_item, old_item]) registered_state))
   \<and> last (trace (snd (fetchDeviceState (sync_env [standup_item, old_item]) registered_state))) = DrawCalendar
   \<and> lastStateSignature registered_state = []
   \<and> lastStateSignature (snd (fetchDeviceState (sync_env [standup_item, old_item]) registered_state))
       = ''cal:1|07:50 Standup|loc0:;mail:||''
   \<and> fst (fetchDeviceState (sync_env [standup_item, old_item]) viewing_state)
   \<and> currentUi viewing_state \<noteq> Provisioning
   \<and> \<not> minuteRefreshPending viewing_state
   \<and> \<not> redrawn viewing_state (snd (fetchDeviceState (sync_env [standup_item, old_item]) viewing_state))
   \<and> fst (fetchDeviceState (sync_env [standup_item, old_item]) pending_viewing_state)
   \<and> minuteRefreshPending pending_viewing_state
   \<and> redrawn pending_viewing_state
        (snd (fetchDeviceState (sync_env [standup_item, old_item]) pending_viewing_state))
   \<and> \<not> minuteRefreshPending
          (snd (fetchDeviceState (sync_env [standup_item, old_item]) pending_viewing_state))"
proof -
  let ?e = "sync_env [standup_item, old_item]"
  have d: "st_doc ?e = Some \<lparr>cal_items = [standup_item, old_item], email_items = []\<rparr>"
    and clk: "clock ?e = sample_clock"
    by (simp_all add: sync_env_def idle_env_def)
  have prov: "currentUi registered_state = Provisioning" "lastStateSignature registered_state = []"
    by (simp_all add: registered_state_def power_on_def)
  have view: "currentUi viewing_state = Calendar" "\<not> minuteRefreshPending viewing_state"
    "lastStateSignature viewing_state = ''cal:1|07:50 Standup|loc0:;mail:||''"
    by (simp_all add: viewing_state_def registered_state_def power_on_def)
  have pend: "currentUi pending_viewing_state = Calendar" "minuteRefreshPending pending_viewing_state"
    by (simp_all add: pending_viewing_state_def viewing_state_def registered_state_def power_on_def)
  have ok: "fst (fetchDeviceState ?e registered_state)" "fst (fetchDeviceState ?e viewing_state)"
    "fst (fetchDeviceState ?e pending_viewing_state)"
    using fetch_sample [of "[standup_item, old_item]"] fetch_sample_viewing [of "[standup_item, old_item]"]
      fetch_sample_pending [of "[standup_item, old_item]"]
    by (metis fst_conv)+
  from fetch_redraw_policy [OF fetch_sample [of "[standup_item, old_item]"]] d prov
  have first: "currentUi (snd (fetchDeviceState ?e registered_state)) = Calendar
     \<and> redrawn registered_state (snd (fetchDeviceState ?e registered_state))
     \<and> last (trace (snd (fetchDeviceState ?e registered_state))) = DrawCalendar
     \<and> lastStateSignature (snd (fetchDeviceState ?e registered_state))
         = ''cal:1|07:50 Standup|loc0:;mail:||''"
    by (simp add: clk today_items_standup sample_signature del: collect_today.simps)
  from fetch_redraw_policy [OF fetch_sample_viewing [of "[standup_item, old_item]"]] d view
  have second: "\<not> redrawn viewing_state (snd (fetchDeviceState ?e viewing_state))"
    by (simp add: clk sample_signature del: collect_today.simps)
  from fetch_redraw_policy [OF fetch_sample_pending [of "[standup_item, old_item]"]] d pend
  have third: "redrawn pending_viewing_state (snd (fetchDeviceState ?e pending_viewing_state))
     \<and> \<not> minuteRefreshPending (snd (fetchDeviceState ?e pending_viewing_state))"
    by (simp add: clk del: collect_today.simps)
  from first second third ok prov view pend show ?thesis by simp
qed

subsubsection \<open>Calendar requests on an empty calendar\<close>

text \<open>
  Claim C5. After a successful fetch whose document has no item of today, in every state
  \<open>t\<close> that still has the primary calendar buffer of that snapshot and is not in
  Calendar mode, \<open>refreshDisplayForMode Calendar\<close> ends in mode Email.
\<close>

theorem calendar_request_without_entries:
  assumes "fetchDeviceState e s = (True, s')" and "st_doc e = Some doc"
    and "today_items (clock e) (cal_items doc) = []"
    and "gCalSlotPrimary t = gCalSlotPrimary s'" and "currentUi t \<noteq> Calendar"
  shows "currentUi (refreshDisplayForMode Calendar t) = Email"
proof -
  from fetch_success [OF assms(1)] assms(2)
  have "gCalSlotPrimary s' = gCalSlotPrimary (fill_calendar (collect_today (clock e) 0 (cal_items doc))
          (emit (HttpGet (BACKEND_BASE_URL @ STATE_ENDPOINT)
                   [(''X-Device-Id'', deviceId s), (''X-Device-Secret'', deviceSecret s)]) s))"
    by auto
  with assms(3) have "gCalSlotPrimary s' = []"
    by (simp add: fill_calendar_primary)
  with assms(4,5) show ?thesis
    by (simp add: refreshDisplayForMode_def Let_def)
qed

theorem calendar_request_without_entries_witness:
  "fst (fetchDeviceState (sync_env [old_item]) registered_state)
   \<and> today_items (clock (sync_env [old_item])) [old_item] = []
   \<and> currentUi (snd (fetchDeviceState (sync_env [old_item]) registered_state)) \<noteq> Calendar
   \<and> currentUi (refreshDisplayForMode Calendar (snd (fetchDeviceState (sync_env [old_item]) registered_state))) = Email"
proof -
  let ?e = "sync_env [old_item]"
  let ?s' = "snd (fetchDeviceState ?e registered_state)"
  have doc: "st_doc ?e = Some \<lparr>cal_items = [old_item], email_items = []\<rparr>"
    and clk: "clock ?e = sample_clock"
    by (simp_all add: sync_env_def idle_env_def)
  have none: "today_items (clock ?e) (cal_items \<lparr>cal_items = [old_item], email_items = []\<rparr>) = []"
    by (simp add: clk today_items_old)
  have prov: "currentUi registered_state = Provisioning"
    by (simp add: registered_state_def power_on_def)
  from fetch_promotes [OF fetch_sample [of "[old_item]"] doc prov] none
  have mode: "currentUi ?s' \<noteq> Calendar"
    by simp
  from calendar_request_without_entries [OF fetch_sample doc none refl mode]
  have "currentUi (refreshDisplayForMode Calendar ?s') = Email" .
  moreover have "fst (fetchDeviceState ?e registered_state)"
    using fetch_sample [of "[old_item]"] by (metis fst_conv)
  moreover have "today_items (clock ?e) [old_item] = []"
    by (simp add: clk today_items_old)
  ultimately show ?thesis using mode by simp
qed

subsubsection \<open>The fingerprint\<close>

text \<open>
  Claim C8. Two successful fetches whose calendar items filter to the same today-only
  entries (time of day, summary, location) in the same order, with the same email items,
  compute the same fingerprint and store it: items that are not of today do not count.
\<close>

theorem fingerprint_of_kept_entries:
  assumes "fetchDeviceState e1 s1 = (True, s1')" and "fetchDeviceState e2 s2 = (True, s2')"
    and "st_doc e1 = Some d1" and "st_doc e2 = Some d2"
    and "map entry_of (today_items (clock e1) (cal_items d1))
         = map entry_of (today_items (clock e2) (cal_items d2))"
    and "email_items d1 = email_items d2"
  shows "build_signature (collect_today (clock e1) 0 (cal_items d1)) (email_items d1)
         = build_signature (collect_today (clock e2) 0 (cal_items d2)) (email_items d2)
         \<and> lastStateSignature s1' = build_signature (collect_today (clock e1) 0 (cal_items d1)) (email_items d1)
         \<and> lastStateSignature s2' = lastStateSignature s1'"
proof -
  have stored: "lastStateSignature s' = build_signature (collect_today (clock e) 0 (cal_items d)) (email_items d)"
    if "fetchDeviceState e s = (True, s')" and "st_doc e = Some d" for e s s' d
    using fetch_success [OF that(1)] that(2)
    by (auto simp: redraw_signature build_signature_length)
  from entries_determine_kept [OF assms(5)] assms(6)
  have "build_signature (collect_today (clock e1) 0 (cal_items d1)) (email_items d1)
         = build_signature (collect_today (clock e2) 0 (cal_items d2)) (email_items d2)"
    by simp
  with stored [OF assms(1,3)] stored [OF assms(2,4)] show ?thesis by simp
qed

theorem fingerprint_of_kept_entries_witness:
  "fst (fetchDeviceState (sync_env [standup_item, old_item]) registered_state)
   \<and> fst (fetchDeviceState (sync_env [old_item, old_item, standup_item]) registered_state)
   \<and> today_items sample_clock [standup_item, old_item] = today_items sample_clock [old_item, old_item, standup_item]
   \<and> lastStateSignature (snd (fetchDeviceState (sync_env [old_item, old_item, standup_item]) registered_state))
       = lastStateSignature (snd (fetchDeviceState (sync_env [standup_item, old_item]) registered_state))"
proof -
  let ?e1 = "sync_env [standup_item, old_item]"
  let ?e2 = "sync_env [old_item, old_item, standup_item]"
  have d1: "st_doc ?e1 = Some \<lparr>cal_items = [standup_item, old_item], email_items = []\<rparr>"
    and d2: "st_doc ?e2 = Some \<lparr>cal_items = [old_item, old_item, standup_item], email_items = []\<rparr>"
    and clk: "clock ?e1 = sample_clock" "clock ?e2 = sample_clock"
    by (simp_all add: sync_env_def idle_env_def)
  have same: "map entry_of (today_items (clock ?e1) (cal_items \<lparr>cal_items = [standup_item, old_item], email_items = []\<rparr>))
         = map entry_of (today_items (clock ?e2) (cal_items \<lparr>cal_items = [old_item, old_item, standup_item], email_items = []\<rparr>))"
    by (simp add: clk today_items_standup today_items_standup')
  have mails: "email_items \<lparr>cal_items = [standup_item, old_item], email_items = []\<rparr>
               = email_items \<lparr>cal_items = [old_item, old_item, standup_item], email_items = ([]::mail_item list)\<rparr>"
    by simp
  from fingerprint_of_kept_entries [OF fetch_sample fetch_sample d1 d2 same mails]
  have "lastStateSignature (snd (fetchDeviceState ?e2 registered_state))
        = lastStateSignature (snd (fetchDeviceState ?e1 registered_state))"
    by simp
  moreover have "fst (fetchDeviceState ?e1 registered_state)" "fst (fetchDeviceState ?e2 registered_state)"
    using fetch_sample [of "[standup_item, old_item]"] fetch_sample [of "[old_item, old_item, standup_item]"]
    by (metis fst_conv)+
  ultimately show ?thesis
    by (simp add: today_items_standup today_items_standup')
qed

subsection \<open>The minute tick\<close>

text \<open>
  Claim C7, amended. On a minute tick (the one-second check is due and the \<open>HH:MM\<close>
  string differs from the last one) the pending flag is set, and: with the connection up
  and the device registered, \<open>lastStateFetch\<close> becomes 0 and nothing is drawn; otherwise,
  when a snapshot is ready and the mode is not Provisioning, the current view is drawn at
  once and the flag is cleared; otherwise nothing is drawn and the flag stays pending.
\<close>

theorem minute_tick_policy:
  assumes "minute_tick e s"
  shows "(wifiConnected s \<and> deviceRegistered s \<longrightarrow>
            lastStateFetch (loop_clock e s) = 0 \<and> minuteRefreshPending (loop_clock e s)
            \<and> new_events s (loop_clock e s) = [])
         \<and> (\<not> (wifiConnected s \<and> deviceRegistered s) \<and> stateReady s \<and> currentUi s \<noteq> Provisioning \<longrightarrow>
            new_events s (loop_clock e s) = PageStart # view_event (currentUi s)
            \<and> \<not> minuteRefreshPending (loop_clock e s)
            \<and> currentUi (loop_clock e s) = currentUi s)
         \<and> (\<not> (wifiConnected s \<and> deviceRegistered s) \<and> \<not> (stateReady s \<and> currentUi s \<noteq> Provisioning) \<longrightarrow>
            new_events s (loop_clock e s) = [] \<and> minuteRefreshPending (loop_clock e s))"
  using assms
  by (cases "currentUi s")
     (auto simp: minute_tick_def loop_clock_def Let_def updateTime_def refreshCurrentDisplay_def
        emit_def new_events_def)

theorem minute_tick_policy_witness:
  "minute_tick minute_env offline_viewing_state
   \<and> \<not> (wifiConnected offline_viewing_state \<and> deviceRegistered offline_viewing_state)
   \<and> stateReady offline_viewing_state \<and> currentUi offline_viewing_state \<noteq> Provisioning
   \<and> new_events offline_viewing_state (loop_clock minute_env offline_viewing_state) = [PageStart, DrawCalendar]
   \<and> \<not> minuteRefreshPending (loop_clock minute_env offline_viewing_state)"
proof -
  have tick: "minute_tick minute_env offline_viewing_state"
    by (simp add: minute_tick_def minute_env_def idle_env_def sample_clock_def
      offline_viewing_state_def viewing_state_def registered_state_def power_on_def
      getCurrentTimeString_def TIME_CHECK_INTERVAL_MS_def pad2_def dec_string.simps [of 7]
      dec_string.simps [of 50] dec_string.simps [of 5] digit_char_def)
  have st: "\<not> wifiConnected offline_viewing_state" "stateReady offline_viewing_state"
    "currentUi offline_viewing_state = Calendar"
    by (simp_all add: offline_viewing_state_def viewing_state_def registered_state_def power_on_def)
  from minute_tick_policy [OF tick] tick st show ?thesis by simp
qed

text \<open>
  The claim as written, that a device that is not connected or not registered redraws at
  once and clears the flag, fails in the state after power-on: nothing is drawn and the
  flag stays set.
\<close>

theorem minute_tick_counterexample:
  "minute_tick minute_env (power_on Map.empty [])
   \<and> \<not> (wifiConnected (power_on Map.empty []) \<and> deviceRegistered (power_on Map.empty []))
   \<and> new_events (power_on Map.empty []) (loop_clock minute_env (power_on Map.empty [])) = []
   \<and> minuteRefreshPending (loop_clock minute_env (power_on Map.empty []))"
  by (simp add: minute_tick_def loop_clock_def Let_def updateTime_def refreshCurrentDisplay_def
      emit_def new_events_def minute_env_def idle_env_def sample_clock_def power_on_def
      getCurrentTimeString_def TIME_CHECK_INTERVAL_MS_def pad2_def dec_string.simps [of 7]
      dec_string.simps [of 50] dec_string.simps [of 5] digit_char_def)

text \<open>
  The amended claim says nothing about when the next fetch runs. Resetting
  \<open>lastStateFetch\<close> to 0 passes the interval test of the loop only once \<open>millis()\<close>
  exceeds the refresh interval: thirty seconds after boot, with a snapshot ready, a minute
  tick resets the timestamp and the same pass of the loop neither fetches nor draws, and
  the flag stays pending.
\<close>

lemma minute_fetch_deferred_example:
  "minute_tick (early_env\<lparr>clock := sample_clock\<rparr>) online_viewing_state
   \<and> wifiConnected online_viewing_state \<and> deviceRegistered online_viewing_state
   \<and> lastStateFetch (loop_clock (early_env\<lparr>clock := sample_clock\<rparr>) online_viewing_state) = 0
   \<and> new_events online_viewing_state
        (tick (early_env\<lparr>clock := sample_clock\<rparr>) idle_env online_viewing_state) = []
   \<and> minuteRefreshPending (tick (early_env\<lparr>clock := sample_clock\<rparr>) idle_env online_viewing_state)"
  by (simp add: minute_tick_def loop_clock_def tick_def loop_def loop_online_def loop_sync_def
      loop_credentials_def ensureWifiConnection_def loop_mode_button_def loop_reset_button_def
      early_env_def idle_env_def sample_clock_def online_viewing_state_def viewing_state_def
      registered_state_def power_on_def getCurrentTimeString_def updateTime_def
      TIME_CHECK_INTERVAL_MS_def HEARTBEAT_INTERVAL_MS_def STATE_REFRESH_INTERVAL_MS_def
      debounceDelay_def resetDebounceDelay_def pad2_def dec_string.simps [of 7]
      dec_string.simps [of 50] dec_string.simps [of 5] digit_char_def new_events_def Let_def)

subsection \<open>The mode button\<close>

text \<open>
  Claim C10. In mode Email with an empty primary calendar buffer, an accepted rising edge
  of the mode button (the pin is high, the stable level was low, no press was recorded,
  the debounce time has passed) calls \<open>refreshDisplayForMode Calendar\<close> in a state
  that is still in mode Email; the mode stays Email, a page with the email view is drawn,
  and the snapshot is as before.
\<close>

theorem mode_button_fallback_redraw:
  assumes "currentUi s = Email" and "gCalSlotPrimary s = []"
    and "mode_pin e" and "\<not> stableState s" and "\<not> lastButtonPressed s"
    and "ms e ModeCheck - (if mode_pin e \<noteq> lastModeState s then ms e ModeEdge else lastDebounceTime s)
         > debounceDelay"
  shows "(\<exists>t. currentUi t = Email \<and> gCalSlotPrimary t = []
              \<and> loop_mode_button e s
                  = (refreshDisplayForMode Calendar t)\<lparr>lastButtonPressed := True, lastModeState := True\<rparr>)
         \<and> currentUi (loop_mode_button e s) = Email
         \<and> new_events s (loop_mode_button e s) = [PageStart, DrawEmail]
         \<and> snapshot_of (loop_mode_button e s) = snapshot_of s"
proof -
  let ?s1 = "if mode_pin e \<noteq> lastModeState s then s\<lparr>lastDebounceTime := ms e ModeEdge\<rparr> else s"
  let ?t = "updateTime (clock e) (?s1\<lparr>stableState := True\<rparr>)"
  have t: "currentUi ?t = Email" "gCalSlotPrimary ?t = []" "stableState ?t" "\<not> lastButtonPressed ?t"
    "trace ?t = trace s" "snapshot_of ?t = snapshot_of s"
    using assms by (simp_all add: updateTime_def snapshot_of_def)
  have debounced: "ms e ModeCheck - lastDebounceTime ?s1 > debounceDelay"
    using assms(6) by (simp split: if_splits)
  have step: "loop_mode_button e s
      = (refreshDisplayForMode Calendar ?t)\<lparr>lastButtonPressed := True, lastModeState := True\<rparr>"
    using assms(1-5) debounced t
    by (simp add: loop_mode_button_def Let_def refreshDisplayForMode_def emit_def split: if_splits)
  have after: "currentUi (refreshDisplayForMode Calendar ?t) = Email"
    "trace (refreshDisplayForMode Calendar ?t) = trace s @ [PageStart, DrawEmail]"
    "snapshot_of (refreshDisplayForMode Calendar ?t) = snapshot_of s"
    using t by (simp_all add: refreshDisplayForMode_def Let_def emit_def snapshot_of_def)
  from after have "currentUi (loop_mode_button e s) = Email"
    "new_events s (loop_mode_button e s) = [PageStart, DrawEmail]"
    "snapshot_of (loop_mode_button e s) = snapshot_of s"
    unfolding step by (simp_all add: new_events_def snapshot_of_def)
  with step t(1,2) show ?thesis by blast
qed

theorem mode_button_fallback_redraw_witness:
  "currentUi email_without_calendar = Email \<and> gCalSlotPrimary email_without_calendar = []
   \<and> mode_pin press_env \<and> \<not> stableState email_without_calendar
   \<and> \<not> lastButtonPressed email_without_calendar
   \<and> currentUi (loop_mode_button press_env email_without_calendar) = Email
   \<and> new_events email_without_calendar (loop_mode_button press_env email_without_calendar)
       = [PageStart, DrawEmail]"
proof -
  have h: "currentUi email_without_calendar = Email" "gCalSlotPrimary email_without_calendar = []"
    "mode_pin press_env" "\<not> stableState email_without_calendar"
    "\<not> lastButtonPressed email_without_calendar"
    "ms press_env ModeCheck
       - (if mode_pin press_env \<noteq> lastModeState email_without_calendar then ms press_env ModeEdge
          else lastDebounceTime email_without_calendar) > debounceDelay"
    by (simp_all add: email_without_calendar_def viewing_state_def registered_state_def power_on_def
        press_env_def idle_env_def debounceDelay_def)
  from mode_button_fallback_redraw [OF h] h(1-5) show ?thesis by simp
qed

subsection \<open>Identity, boot and the loop\<close>

lemmas pref_keys = PREF_WIFI_SSID_def PREF_WIFI_PASS_def PREF_DEVICE_ID_def PREF_DEVICE_SECRET_def
  PREF_PAIRING_TOKEN_def PREF_BLE_NAME_def PREF_FIRMWARE_def

lemmas basic_defs = updateStatusCharacteristic_def updatePairingCharacteristic_def emit_def
  updateTime_def refreshDisplayForMode_def refreshCurrentDisplay_def ensureBleAdvertising_def
  handleProvisioningUi_def drawProvisioningScreen_def

lemma atomic_ident:
  "atomic_identity s = (case ident s of (did, secret, stored_id, stored_secret) \<Rightarrow>
      ((did = []) = (secret = [])) \<and> ((stored_id = []) = (stored_secret = [])))"
  by (simp add: ident_def atomic_identity_def identity_inv_def stored_inv_def)

lemma notify_frame [simp]:
  "gCalSlotPrimary (updateStatusCharacteristic st s) = gCalSlotPrimary s"
  "stateReady (updateStatusCharacteristic st s) = stateReady s"
  "ident (updateStatusCharacteristic st s) = ident s"
  "gCalSlotPrimary (updatePairingCharacteristic s) = gCalSlotPrimary s"
  "stateReady (updatePairingCharacteristic s) = stateReady s"
  "ident (updatePairingCharacteristic s) = ident s"
  "gCalSlotPrimary (emit ev s) = gCalSlotPrimary s"
  "stateReady (emit ev s) = stateReady s"
  "ident (emit ev s) = ident s"
  "gCalSlotPrimary (updateTime clk s) = gCalSlotPrimary s"
  "stateReady (updateTime clk s) = stateReady s"
  "ident (updateTime clk s) = ident s"
  by (simp_all add: updateStatusCharacteristic_def updatePairingCharacteristic_def emit_def
      updateTime_def ident_def Let_def)

lemma draw_frame [simp]:
  "gCalSlotPrimary (handleProvisioningUi now s) = gCalSlotPrimary s"
  "stateReady (handleProvisioningUi now s) = stateReady s"
  "ident (handleProvisioningUi now s) = ident s"
  "gCalSlotPrimary (ensureBleAdvertising s) = gCalSlotPrimary s"
  "stateReady (ensureBleAdvertising s) = stateReady s"
  "ident (ensureBleAdvertising s) = ident s"
  "gCalSlotPrimary (refreshDisplayForMode m s) = gCalSlotPrimary s"
  "stateReady (refreshDisplayForMode m s) = stateReady s"
  "ident (refreshDisplayForMode m s) = ident s"
  "gCalSlotPrimary (refreshCurrentDisplay s) = gCalSlotPrimary s"
  "stateReady (refreshCurrentDisplay s) = stateReady s"
  "ident (refreshCurrentDisplay s) = ident s"
  by (simp_all add: handleProvisioningUi_def drawProvisioningScreen_def ensureBleAdvertising_def
      refreshDisplayForMode_def refreshCurrentDisplay_def emit_def ident_def Let_def)

lemma wifi_frame [simp]:
  "gCalSlotPrimary (attemptWifiConnection link clk ssid pw s) = gCalSlotPrimary s"
  "stateReady (attemptWifiConnection link clk ssid pw s) = stateReady s"
  "ident (attemptWifiConnection link clk ssid pw s) = ident s"
  by (simp_all add: attemptWifiConnection_def Let_def)
     (simp_all add: ident_def getString_def pref_keys emit_def updateTime_def
        updateStatusCharacteristic_def)

lemma ensure_wifi_frame [simp]:
  "gCalSlotPrimary (snd (ensureWifiConnection e s)) = gCalSlotPrimary s"
  "stateReady (snd (ensureWifiConnection e s)) = stateReady s"
  "ident (snd (ensureWifiConnection e s)) = ident s"
  by (simp_all add: ensureWifiConnection_def Let_def split: if_splits)
     (simp_all add: ident_def)

lemma loop_clock_frame [simp]:
  "gCalSlotPrimary (loop_clock e s) = gCalSlotPrimary s"
  "stateReady (loop_clock e s) = stateReady s"
  "ident (loop_clock e s) = ident s"
  by (simp_all add: loop_clock_def Let_def ident_def basic_defs)

lemma loop_credentials_primary [simp]:
  "gCalSlotPrimary (loop_credentials e s) = gCalSlotPrimary s"
  by (simp add: loop_credentials_def Let_def)

lemma heartbeat_frame [simp]:
  "gCalSlotPrimary (sendHeartbeat e s) = gCalSlotPrimary s"
  "stateReady (sendHeartbeat e s) = stateReady s"
  "ident (sendHeartbeat e s) = ident s"
  by (simp_all add: sendHeartbeat_def)

lemma register_primary [simp]:
  "gCalSlotPrimary (snd (registerDeviceWithBackend e s)) = gCalSlotPrimary s"
  by (simp add: registerDeviceWithBackend_def Let_def ensureBleAdvertising_def split: option.splits)

lemma mode_button_frame [simp]:
  "gCalSlotPrimary (loop_mode_button e s) = gCalSlotPrimary s"
  "stateReady (loop_mode_button e s) = stateReady s"
  "ident (loop_mode_button e s) = ident s"
  by (simp_all add: loop_mode_button_def Let_def ident_def basic_defs)

lemma reset_button_continue:
  assumes "loop_reset_button e s = Continue s'"
  shows "gCalSlotPrimary s' = gCalSlotPrimary s" and "stateReady s' = stateReady s"
    and "ident s' = ident s"
  using assms
  by (auto simp: loop_reset_button_def Let_def ident_def split: if_splits)

lemma factory_reset_stored: "stored_inv (prefs (performFactoryReset e s))"
  by (simp add: performFactoryReset_def Let_def stored_inv_def getString_def pref_keys emit_def)

lemma factory_reset_identity: "identity_inv (performFactoryReset e s)"
  by (simp add: performFactoryReset_def Let_def identity_inv_def emit_def)

lemma factory_reset_atomic: "atomic_identity (performFactoryReset e s)"
  by (simp add: atomic_identity_def factory_reset_stored factory_reset_identity)

lemma reset_button_reboot:
  assumes "loop_reset_button e s = Reboot s'"
  shows "stored_inv (prefs s')"
  using assms factory_reset_stored
  by (auto simp: loop_reset_button_def Let_def split: if_splits)

lemma fill_ident [simp]:
  "ident (fill_calendar kept s) = ident s"
  "ident (fill_email items s) = ident s"
  by (simp_all add: fill_calendar_def fill_email_def updateMailSummaryLines_def ident_def Let_def)

lemma redraw_ident [simp]: "ident (redraw_after_fetch clk newSig s) = ident s"
proof -
  have upd: "ident (t\<lparr>lastStateSignature := x\<rparr>) = ident t" "ident (t\<lparr>stateReady := b\<rparr>) = ident t"
    "ident (t\<lparr>minuteRefreshPending := b\<rparr>) = ident t" for t x b
    by (simp_all add: ident_def)
  show ?thesis
    by (simp add: redraw_after_fetch_def Let_def upd)
qed

lemma redraw_ready [simp]: "stateReady (redraw_after_fetch clk newSig s)"
  by (simp add: redraw_after_fetch_def Let_def)

lemma fetch_ident [simp]: "ident (snd (fetchDeviceState e s)) = ident s"
proof -
  have upd: "ident (t\<lparr>stateReady := b\<rparr>) = ident t" for t b
    by (simp add: ident_def)
  show ?thesis
    by (simp add: fetchDeviceState_def Let_def upd split: option.splits)
qed

lemma fetch_primary_or_ready:
  "gCalSlotPrimary (snd (fetchDeviceState e s)) = gCalSlotPrimary s \<or> stateReady (snd (fetchDeviceState e s))"
  by (simp add: fetchDeviceState_def Let_def split: option.splits)

lemma loop_sync_ident [simp]: "ident (loop_sync e s) = ident s"
proof -
  have upd: "ident (t\<lparr>lastHeartbeat := x\<rparr>) = ident t" "ident (t\<lparr>lastStateFetch := x\<rparr>) = ident t" for t x
    by (simp_all add: ident_def)
  show ?thesis
    by (simp add: loop_sync_def Let_def upd)
qed

lemma loop_sync_primary_or_ready:
  "gCalSlotPrimary (loop_sync e s) = gCalSlotPrimary s \<or> stateReady (loop_sync e s)"
proof -
  let ?s1 = "if ms e HeartbeatCheck - lastHeartbeat s > HEARTBEAT_INTERVAL_MS
             then sendHeartbeat e (s\<lparr>lastHeartbeat := ms e HeartbeatSet\<rparr>) else s"
  have s1: "gCalSlotPrimary ?s1 = gCalSlotPrimary s" by simp
  show ?thesis
    using fetch_primary_or_ready [of e "?s1\<lparr>lastStateFetch := ms e FetchSet\<rparr>"] s1
    unfolding loop_sync_def Let_def by (auto split: if_splits)
qed

lemma loop_online_continue:
  assumes "loop_online e s = Continue s'"
  shows "ident s' = ident s" and "\<not> stateReady s' \<Longrightarrow> gCalSlotPrimary s' = gCalSlotPrimary s"
proof -
  let ?s1 = "loop_sync e s"
  show "ident s' = ident s"
  proof (cases "stateReady ?s1")
    case False
    with assms show ?thesis by (auto simp: loop_online_def Let_def)
  next
    case True
    with assms have "loop_reset_button e (loop_mode_button e ?s1) = Continue s'"
      by (simp add: loop_online_def Let_def)
    from reset_button_continue(3) [OF this] show ?thesis by simp
  qed
  show "gCalSlotPrimary s' = gCalSlotPrimary s" if "\<not> stateReady s'"
  proof (cases "stateReady ?s1")
    case False
    with assms loop_sync_primary_or_ready [of e s] show ?thesis
      by (auto simp: loop_online_def Let_def)
  next
    case True
    with assms have "loop_reset_button e (loop_mode_button e ?s1) = Continue s'"
      by (simp add: loop_online_def Let_def)
    from reset_button_continue(2) [OF this] True that show ?thesis by simp
  qed
qed

lemma loop_online_reboot:
  assumes "loop_online e s = Reboot s'"
  shows "stored_inv (prefs s')"
  using assms reset_button_reboot
  by (auto simp: loop_online_def Let_def split: if_splits)

lemma start_ble_frame [simp]:
  "gCalSlotPrimary (startBleProvisioning s) = gCalSlotPrimary s"
  "stateReady (startBleProvisioning s) = stateReady s"
  "ident (startBleProvisioning s) = ident s"
proof -
  have upd: "ident (t\<lparr>pairingInfoChar := a, statusChar := b\<rparr>) = ident t"
    "ident (t\<lparr>bleInitialized := a\<rparr>) = ident t" for t a b
    by (simp_all add: ident_def)
  show "gCalSlotPrimary (startBleProvisioning s) = gCalSlotPrimary s"
    "stateReady (startBleProvisioning s) = stateReady s"
    "ident (startBleProvisioning s) = ident s"
    by (simp_all add: startBleProvisioning_def Let_def upd)
qed

lemma setup_fresh:
  "gCalSlotPrimary (setup_fw e (power_on store tr)) = ''Pair Zen Display''"
  "\<not> stateReady (setup_fw e (power_on store tr))"
  by (simp_all add: setup_fw_def Let_def) (simp_all add: power_on_def)

lemma setup_atomic:
  assumes "stored_inv store"
  shows "atomic_identity (setup_fw e (power_on store tr))"
proof -
  let ?s = "power_on store tr"
  let ?s1 = "?s\<lparr>wifiSsid := getString (prefs ?s) PREF_WIFI_SSID [],
                 wifiPassword := getString (prefs ?s) PREF_WIFI_PASS [],
                 deviceId := getString (prefs ?s) PREF_DEVICE_ID [],
                 deviceSecret := getString (prefs ?s) PREF_DEVICE_SECRET [],
                 pairingToken := getString (prefs ?s) PREF_PAIRING_TOKEN [],
                 bleName := getString (prefs ?s) PREF_BLE_NAME (defaultBleName e)\<rparr>"
  have "ident (setup_fw e ?s) = ident ?s1"
    by (simp add: setup_fw_def Let_def)
  moreover have "atomic_identity ?s1"
    using assms by (simp add: atomic_identity_def identity_inv_def stored_inv_def power_on_def)
  ultimately show ?thesis by (simp add: atomic_ident)
qed

lemma empty_store_inv: "stored_inv Map.empty"
  by (simp add: stored_inv_def getString_def)

lemma onWrite_frame [simp]:
  "gCalSlotPrimary (onWrite raw s) = gCalSlotPrimary s"
  "stateReady (onWrite raw s) = stateReady s"
  "ident (onWrite raw s) = ident s"
  by (simp_all add: onWrite_def Let_def ident_def)

lemma onWrite_atomic: "atomic_identity s \<Longrightarrow> atomic_identity (onWrite raw s)"
  by (simp add: atomic_ident)

lemma loop_credentials_atomic:
  assumes "atomic_identity s"
  shows "atomic_identity (loop_credentials e s)"
proof (cases "credentialsUpdated s \<and> pendingSsid s \<noteq> []")
  case False
  then have "ident (loop_credentials e s) = ident s"
    by (auto simp: loop_credentials_def Let_def ident_def)
  with assms show ?thesis by (simp add: atomic_ident)
next
  case True
  let ?s3 = "s\<lparr>credentialsUpdated := False, deviceRegistered := False, stateReady := False,
               deviceId := [], deviceSecret := [], pairingToken := [],
               prefs := (prefs s)(PREF_DEVICE_ID := None, PREF_DEVICE_SECRET := None,
                                  PREF_PAIRING_TOKEN := None)\<rparr>"
  have "loop_credentials e s
        = attemptWifiConnection (wifi_attempt_credentials e) (clock e) (pendingSsid s) (pendingPassword s)
            (updateStatusCharacteristic ''connecting'' ?s3)"
    using True by (simp add: loop_credentials_def Let_def updateStatusCharacteristic_def emit_def)
  then have "ident (loop_credentials e s) = ident ?s3"
    by simp
  moreover have "atomic_identity ?s3"
    by (simp add: atomic_identity_def identity_inv_def stored_inv_def getString_def pref_keys)
  ultimately show ?thesis by (simp add: atomic_ident)
qed

lemma register_failure_ident:
  "\<not> fst (registerDeviceWithBackend e s) \<Longrightarrow> ident (snd (registerDeviceWithBackend e s)) = ident s"
  by (simp add: registerDeviceWithBackend_def Let_def split: if_splits option.splits)

lemma register_atomic:
  assumes "atomic_identity s" and "reg_response_paired e"
  shows "atomic_identity (snd (registerDeviceWithBackend e s))"
proof (cases "fst (registerDeviceWithBackend e s)")
  case False
  from register_failure_ident [OF this] assms(1) show ?thesis by (simp add: atomic_ident)
next
  case True
  show ?thesis
  proof (cases "deviceId s \<noteq> [] \<and> deviceSecret s \<noteq> []")
    case cached: True
    with True have "ident (snd (registerDeviceWithBackend e s)) = ident s"
      by (simp add: registerDeviceWithBackend_def split: if_splits)
    with assms(1) show ?thesis by (simp add: atomic_ident)
  next
    case False
    with True obtain response where r: "reg_response e = Some response"
      by (cases "reg_response e") (auto simp: registerDeviceWithBackend_def Let_def split: if_splits)
    with assms(2) have paired: "(r_deviceId response = []) = (r_deviceSecret response = [])"
      by (simp add: reg_response_paired_def)
    from True False r
    have "deviceId (snd (registerDeviceWithBackend e s)) = r_deviceId response"
      "deviceSecret (snd (registerDeviceWithBackend e s)) = r_deviceSecret response"
      "getString (prefs (snd (registerDeviceWithBackend e s))) PREF_DEVICE_ID [] = r_deviceId response"
      "getString (prefs (snd (registerDeviceWithBackend e s))) PREF_DEVICE_SECRET [] = r_deviceSecret response"
      by (auto simp: registerDeviceWithBackend_def Let_def basic_defs getString_def pref_keys)
    with paired show ?thesis
      by (simp add: atomic_identity_def identity_inv_def stored_inv_def)
  qed
qed

lemma registered_flag_ident [simp]: "ident (s\<lparr>deviceRegistered := b\<rparr>) = ident s"
  by (simp add: ident_def)

lemma registered_flag_primary [simp]:
  "gCalSlotPrimary (s\<lparr>deviceRegistered := b\<rparr>) = gCalSlotPrimary s"
  by simp

lemma loop_prefix:
  assumes "ensureWifiConnection e (loop_credentials e (loop_clock e s)) = (c, s3)"
  shows "gCalSlotPrimary s3 = gCalSlotPrimary s"
    and "atomic_identity s \<Longrightarrow> atomic_identity s3"
proof -
  from assms have s3: "s3 = snd (ensureWifiConnection e (loop_credentials e (loop_clock e s)))"
    by simp
  show "gCalSlotPrimary s3 = gCalSlotPrimary s"
    unfolding s3 by simp
  assume "atomic_identity s"
  then have "atomic_identity (loop_clock e s)"
    by (simp add: atomic_ident)
  then have "atomic_identity (loop_credentials e (loop_clock e s))"
    by (rule loop_credentials_atomic)
  then show "atomic_identity s3"
    unfolding s3 by (simp add: atomic_ident)
qed

lemma loop_cases:
  assumes "loop e s = out"
  obtains (offline) s3 where "ensureWifiConnection e (loop_credentials e (loop_clock e s)) = (False, s3)"
      and "out = Continue (ensureBleAdvertising (handleProvisioningUi (ms e ProvUi) s3))"
  | (unregistered) s3 where "ensureWifiConnection e (loop_credentials e (loop_clock e s)) = (True, s3)"
      and "out = Continue (handleProvisioningUi (ms e ProvUi)
                   ((snd (registerDeviceWithBackend e s3))\<lparr>deviceRegistered := False\<rparr>))"
  | (registered) s3 where "ensureWifiConnection e (loop_credentials e (loop_clock e s)) = (True, s3)"
      and "out = loop_online e ((snd (registerDeviceWithBackend e s3))\<lparr>deviceRegistered := True\<rparr>)"
  | (online) s3 where "ensureWifiConnection e (loop_credentials e (loop_clock e s)) = (True, s3)"
      and "out = loop_online e s3"
proof -
  obtain c s3 where p: "ensureWifiConnection e (loop_credentials e (loop_clock e s)) = (c, s3)"
    by (cases "ensureWifiConnection e (loop_credentials e (loop_clock e s))")
  obtain r s4 where q: "registerDeviceWithBackend e s3 = (r, s4)"
    by (cases "registerDeviceWithBackend e s3")
  from assms p q offline unregistered registered online show thesis
    by (cases c; cases "deviceRegistered s3"; cases r) (auto simp: loop_def Let_def)
qed

lemma loop_continue:
  assumes "loop e s = Continue s'"
  shows "\<not> stateReady s' \<Longrightarrow> gCalSlotPrimary s' = gCalSlotPrimary s"
    and "atomic_identity s \<Longrightarrow> reg_response_paired e \<Longrightarrow> atomic_identity s'"
proof -
  show "gCalSlotPrimary s' = gCalSlotPrimary s" if "\<not> stateReady s'"
    using assms
  proof (cases rule: loop_cases)
    case (offline s3)
    with loop_prefix(1) [OF offline(1)] show ?thesis by simp
  next
    case (unregistered s3)
    with loop_prefix(1) [OF unregistered(1)] show ?thesis by simp
  next
    case (registered s3)
    from loop_online_continue(2) [OF registered(2) [symmetric] that] loop_prefix(1) [OF registered(1)]
    show ?thesis by simp
  next
    case (online s3)
    from loop_online_continue(2) [OF online(2) [symmetric] that] loop_prefix(1) [OF online(1)]
    show ?thesis by simp
  qed
  show "atomic_identity s'" if "atomic_identity s" and "reg_response_paired e"
    using assms
  proof (cases rule: loop_cases)
    case (offline s3)
    with loop_prefix(2) [OF offline(1) that(1)] show ?thesis by (simp add: atomic_ident)
  next
    case (unregistered s3)
    from register_atomic [OF loop_prefix(2) [OF unregistered(1) that(1)] that(2)] unregistered(2)
    show ?thesis by (simp add: atomic_ident)
  next
    case (registered s3)
    from loop_online_continue(1) [OF registered(2) [symmetric]]
      register_atomic [OF loop_prefix(2) [OF registered(1) that(1)] that(2)]
    show ?thesis by (simp add: atomic_ident)
  next
    case (online s3)
    from loop_online_continue(1) [OF online(2) [symmetric]] loop_prefix(2) [OF online(1) that(1)]
    show ?thesis by (simp add: atomic_ident)
  qed
qed

lemma loop_reboot:
  assumes "loop e s = Reboot s'"
  shows "stored_inv (prefs s')"
  using assms
  by (cases rule: loop_cases) (auto dest: loop_online_reboot [OF sym])

lemma tick_atomic:
  assumes "atomic_identity s" and "reg_response_paired e"
  shows "atomic_identity (tick e eb s)"
proof (cases "loop e s")
  case (Continue s')
  with loop_continue(2) [OF Continue assms] show ?thesis by (simp add: tick_def)
next
  case (Reboot s')
  with setup_atomic [OF loop_reboot [OF Reboot]] show ?thesis by (simp add: tick_def)
qed

subsubsection \<open>The identity invariant\<close>

text \<open>
  Claim C6, amended. \<open>deviceId\<close> and \<open>deviceSecret\<close> are both empty or both
  non-empty, in memory and in the store: after the first boot on an empty store; after a
  boot on any store that pairs them; after a credential payload arrives and after the loop
  takes new credentials over; after a factory reset; after a registration that fails, which
  leaves the two credentials and their stored copies as they were; and after a
  registration, and after a whole pass of the loop with the boot a reset causes, provided
  the registration response, if one is decoded, carries a device id and a device secret
  that are both empty or both non-empty.
\<close>

theorem identity_atomic:
  "atomic_identity (setup_fw e (power_on Map.empty tr))
   \<and> (stored_inv store \<longrightarrow> atomic_identity (setup_fw e (power_on store tr)))
   \<and> (atomic_identity s \<longrightarrow> atomic_identity (onWrite raw s))
   \<and> (atomic_identity s \<longrightarrow> atomic_identity (loop_credentials e s))
   \<and> atomic_identity (performFactoryReset e s)
   \<and> (\<not> fst (registerDeviceWithBackend e s) \<longrightarrow>
        ident (snd (registerDeviceWithBackend e s)) = ident s)
   \<and> (atomic_identity s \<and> reg_response_paired e \<longrightarrow>
        atomic_identity (snd (registerDeviceWithBackend e s)))
   \<and> (atomic_identity s \<and> reg_response_paired e \<longrightarrow> atomic_identity (tick e eb s))"
  using setup_atomic [OF empty_store_inv, of e tr] setup_atomic [of store e tr]
    onWrite_atomic [of s raw] loop_credentials_atomic [of s e] factory_reset_atomic [of e s]
    register_failure_ident [of e s] register_atomic [of s e] tick_atomic [of s e eb]
  by blast

theorem identity_atomic_witness:
  "atomic_identity connected_state \<and> reg_response_paired full_response_env
   \<and> atomic_identity (snd (registerDeviceWithBackend full_response_env connected_state))
   \<and> atomic_identity (tick full_response_env idle_env connected_state)
   \<and> deviceId (snd (registerDeviceWithBackend full_response_env connected_state)) = ''dev-1''"
proof -
  have h: "atomic_identity connected_state" "reg_response_paired full_response_env"
    by (simp_all add: atomic_identity_def identity_inv_def stored_inv_def getString_def
        connected_state_def power_on_def reg_response_paired_def full_response_env_def idle_env_def)
  have "deviceId (snd (registerDeviceWithBackend full_response_env connected_state)) = ''dev-1''"
    by (simp add: connected_state_def full_response_env_def idle_env_def power_on_def
        registerDeviceWithBackend_def Let_def HTTP_CODE_CREATED_def basic_defs)
  with identity_atomic [where s = connected_state and e = full_response_env and eb = idle_env] h
  show ?thesis by simp
qed

text \<open>
  Without the proviso the claim fails: a 201 response with a device id and an empty device
  secret is stored as it comes, and the device then has an id and no secret.
\<close>

theorem identity_atomic_counterexample:
  "atomic_identity connected_state
   \<and> fst (registerDeviceWithBackend half_response_env connected_state)
   \<and> deviceId (snd (registerDeviceWithBackend half_response_env connected_state)) \<noteq> []
   \<and> deviceSecret (snd (registerDeviceWithBackend half_response_env connected_state)) = []"
  by (simp add: atomic_identity_def identity_inv_def stored_inv_def getString_def connected_state_def
      half_response_env_def idle_env_def power_on_def registerDeviceWithBackend_def Let_def
      HTTP_CODE_CREATED_def basic_defs)

subsubsection \<open>Before the first synchronisation\<close>

lemma never_synced_not_ready: "never_synced s \<Longrightarrow> \<not> stateReady s"
  by (induction rule: never_synced.induct) (simp_all add: setup_fresh)

text \<open>
  Claim C9. In every state the firmware reaches before a state fetch has succeeded, the
  primary calendar buffer holds the boot placeholder; so \<open>refreshDisplayForMode Calendar\<close>,
  called when the mode is not Calendar, draws the calendar view and ends in mode Calendar:
  Email is not substituted, because the test reads the buffer and not whether a snapshot
  was ever fetched.
\<close>

theorem placeholder_before_first_sync:
  assumes "never_synced s"
  shows "gCalSlotPrimary s = ''Pair Zen Display''
         \<and> (currentUi s \<noteq> Calendar \<longrightarrow>
              currentUi (refreshDisplayForMode Calendar s) = Calendar
              \<and> new_events s (refreshDisplayForMode Calendar s) = [PageStart, DrawCalendar])"
proof -
  from assms have placeholder: "gCalSlotPrimary s = ''Pair Zen Display''"
  proof induction
    case (boot e store tr)
    show ?case by (rule setup_fresh)
  next
    case (payload s raw)
    then show ?case by simp
  next
    case (pass s e s')
    with loop_continue(1) [OF pass.hyps(2)] show ?case by simp
  qed
  then show ?thesis
    by (simp add: refreshDisplayForMode_def Let_def emit_def new_events_def)
qed

theorem placeholder_before_first_sync_witness:
  "never_synced (setup_fw idle_env (power_on Map.empty []))
   \<and> currentUi (setup_fw idle_env (power_on Map.empty [])) \<noteq> Calendar
   \<and> gCalSlotPrimary (setup_fw idle_env (power_on Map.empty [])) = ''Pair Zen Display''
   \<and> currentUi (refreshDisplayForMode Calendar (setup_fw idle_env (power_on Map.empty []))) = Calendar"
proof -
  have n: "never_synced (setup_fw idle_env (power_on Map.empty []))"
    by (rule never_synced.boot)
  have m: "currentUi (setup_fw idle_env (power_on Map.empty [])) = Provisioning"
    by (simp add: setup_fw_def Let_def power_on_def getString_def startBleProvisioning_def
        attemptWifiConnection_def basic_defs)
  from placeholder_before_first_sync [OF n] n m show ?thesis by simp
qed

subsubsection \<open>The status characteristic\<close>

lemma setup_creates_status_channel: "statusChar (setup_fw e (power_on store tr))"
  by (simp add: setup_fw_def Let_def startBleProvisioning_def attemptWifiConnection_def
      handleProvisioningUi_def drawProvisioningScreen_def updateStatusCharacteristic_def
      updatePairingCharacteristic_def updateTime_def emit_def power_on_def)

lemma status_channel_basic [simp]:
  "statusChar (updateStatusCharacteristic st s) = statusChar s"
  "statusChar (updatePairingCharacteristic s) = statusChar s"
  "statusChar (emit ev s) = statusChar s"
  "statusChar (updateTime clk s) = statusChar s"
  "statusChar (handleProvisioningUi now s) = statusChar s"
  "statusChar (ensureBleAdvertising s) = statusChar s"
  "statusChar (refreshDisplayForMode m s) = statusChar s"
  "statusChar (refreshCurrentDisplay s) = statusChar s"
  "statusChar (sendHeartbeat e s) = statusChar s"
  by (simp_all add: basic_defs sendHeartbeat_def Let_def)

lemma status_channel_wifi [simp]:
  "statusChar (attemptWifiConnection link clk ssid pw s) = statusChar s"
  "statusChar (snd (ensureWifiConnection e s)) = statusChar s"
  by (simp_all add: attemptWifiConnection_def ensureWifiConnection_def Let_def)

lemma status_channel_segments [simp]:
  "statusChar (loop_clock e s) = statusChar s"
  "statusChar (loop_credentials e s) = statusChar s"
  "statusChar (loop_mode_button e s) = statusChar s"
  "statusChar (snd (registerDeviceWithBackend e s)) = statusChar s"
  by (simp_all add: loop_clock_def loop_credentials_def loop_mode_button_def
      registerDeviceWithBackend_def Let_def split: option.splits)

lemma status_channel_fetch [simp]:
  "statusChar (redraw_after_fetch clk newSig s) = statusChar s"
  "statusChar (snd (fetchDeviceState e s)) = statusChar s"
  "statusChar (loop_sync e s) = statusChar s"
  by (simp_all add: redraw_after_fetch_def fetchDeviceState_def loop_sync_def Let_def
      split: option.splits)

lemma status_channel_reset:
  "loop_reset_button e s = Continue s' \<Longrightarrow> statusChar s' = statusChar s"
  by (auto simp: loop_reset_button_def Let_def split: if_splits)

lemma status_channel_online:
  assumes "loop_online e s = Continue s'"
  shows "statusChar s' = statusChar s"
proof (cases "stateReady (loop_sync e s)")
  case False
  with assms show ?thesis by (auto simp: loop_online_def Let_def)
next
  case True
  with assms have "loop_reset_button e (loop_mode_button e (loop_sync e s)) = Continue s'"
    by (simp add: loop_online_def Let_def)
  from status_channel_reset [OF this] show ?thesis by simp
qed

lemma loop_keeps_status_channel:
  assumes "loop e s = Continue s'"
  shows "statusChar s' = statusChar s"
proof -
  have prefix: "statusChar s3 = statusChar s"
    if "ensureWifiConnection e (loop_credentials e (loop_clock e s)) = (c, s3)" for c s3
  proof -
    from that have "s3 = snd (ensureWifiConnection e (loop_credentials e (loop_clock e s)))"
      by simp
    then show ?thesis by simp
  qed
  from assms show ?thesis
  proof (cases rule: loop_cases)
    case (offline s3)
    with prefix [OF offline(1)] show ?thesis by simp
  next
    case (unregistered s3)
    with prefix [OF unregistered(1)] show ?thesis by simp
  next
    case (registered s3)
    from status_channel_online [OF registered(2) [symmetric]] prefix [OF registered(1)]
    show ?thesis by simp
  next
    case (online s3)
    from status_channel_online [OF online(2) [symmetric]] prefix [OF online(1)]
    show ?thesis by simp
  qed
qed

end
